theory Spec2Isabelle
  imports Complex_Main "HOL-Library.AList"
begin

section \<open>Strings and characters of the host language\<close>

text \<open>
  The program is TypeScript. A string is modelled as a \<open>char list\<close>; one \<open>char\<close> stands for
  one code unit below 256, so the character classes of the regular expressions and of
  \<open>trim\<close> and \<open>toLowerCase\<close> are written out for that range.
\<close>

definition is_space :: "char \<Rightarrow> bool" where
  \<comment> \<open>the class \<open>\s\<close>, also the characters \<open>trim\<close> removes: tab, line feed, vertical tab,
      form feed, carriage return, space, no-break space\<close>
  "is_space c = (let n = (of_char c :: nat) in (9 \<le> n \<and> n \<le> 13) \<or> n = 32 \<or> n = 160)"

definition is_digit :: "char \<Rightarrow> bool" where
  \<comment> \<open>the class \<open>\d\<close>\<close>
  "is_digit c = (let n = (of_char c :: nat) in 48 \<le> n \<and> n \<le> 57)"

definition is_lower_hex :: "char \<Rightarrow> bool" where
  \<comment> \<open>the class \<open>[0-9a-f]\<close>\<close>
  "is_lower_hex c = (let n = (of_char c :: nat) in (48 \<le> n \<and> n \<le> 57) \<or> (97 \<le> n \<and> n \<le> 102))"

definition is_hex :: "char \<Rightarrow> bool" where
  \<comment> \<open>the class \<open>[0-9a-fA-F]\<close>\<close>
  "is_hex c = (let n = (of_char c :: nat) in
     (48 \<le> n \<and> n \<le> 57) \<or> (97 \<le> n \<and> n \<le> 102) \<or> (65 \<le> n \<and> n \<le> 70))"

definition is_decimal_char :: "char \<Rightarrow> bool" where
  \<comment> \<open>the class \<open>[\d\.]\<close>\<close>
  "is_decimal_char c = (is_digit c \<or> c = CHR ''.'')"

definition is_ident_start :: "char \<Rightarrow> bool" where
  \<comment> \<open>the class \<open>[a-zA-Z_]\<close>\<close>
  "is_ident_start c = (let n = (of_char c :: nat) in
     (97 \<le> n \<and> n \<le> 122) \<or> (65 \<le> n \<and> n \<le> 90) \<or> n = 95)"

definition is_ident_char :: "char \<Rightarrow> bool" where
  \<comment> \<open>the class \<open>[a-zA-Z0-9_]\<close>\<close>
  "is_ident_char c = (is_ident_start c \<or> is_digit c)"

definition toLowerChar :: "char \<Rightarrow> char" where
  \<comment> \<open>\<open>toLowerCase\<close> on one code unit below 256: A-Z, and the upper-case letters of the
      Latin-1 block (all of 0xC0-0xDE but the multiplication sign 0xD7)\<close>
  "toLowerChar c = (let n = (of_char c :: nat) in
     if (65 \<le> n \<and> n \<le> 90) \<or> (192 \<le> n \<and> n \<le> 222 \<and> n \<noteq> 215) then char_of (n + 32) else c)"

definition toLowerCase :: "string \<Rightarrow> string" where
  "toLowerCase s = map toLowerChar s"

definition trim :: "string \<Rightarrow> string" where
  "trim s = rev (dropWhile is_space (rev (dropWhile is_space s)))"

definition startsWith :: "string \<Rightarrow> string \<Rightarrow> bool" where
  "startsWith s p = (take (length p) s = p)"

fun split_lines :: "string \<Rightarrow> string list" where
  \<comment> \<open>\<open>content.split('\n')\<close>: always at least one line\<close>
  "split_lines [] = [[]]"
| "split_lines (c # cs) =
     (if c = CHR 0x0A then [] # split_lines cs
      else (case split_lines cs of [] \<Rightarrow> [[c]] | l # ls \<Rightarrow> (c # l) # ls))"

fun join :: "string \<Rightarrow> string list \<Rightarrow> string" where
  \<comment> \<open>\<open>xs.join(sep)\<close>\<close>
  "join sep [] = []"
| "join sep [x] = x"
| "join sep (x # y # ys) = x @ sep @ join sep (y # ys)"

function show_nat :: "nat \<Rightarrow> string" where
  \<comment> \<open>the decimal text of a non-negative integer, as a template literal prints it\<close>
  "show_nat n = (if n < 10 then [char_of (48 + n)] else show_nat (n div 10) @ [char_of (48 + n mod 10)])"
  by pat_completeness auto
termination
  by (relation "measure id") auto

declare show_nat.simps [simp del]

section \<open>Tokenizer (libconfigParser.ts, \<open>tokenize\<close>)\<close>

datatype token_type = Identifier | StringT | NumberT | BooleanT | Operator | Delimiter | Comment

record token =
  ttype :: token_type
  tvalue :: string
  tline :: nat
  tcolumn :: nat

definition unescape :: "char \<Rightarrow> char" where
  \<comment> \<open>the \<open>switch (escaped)\<close> of the string branch\<close>
  "unescape e =
     (if e = CHR ''n'' then CHR 0x0A
      else if e = CHR ''t'' then CHR 0x09
      else if e = CHR ''r'' then CHR 0x0D
      else e)"

fun read_string :: "string \<Rightarrow> string \<Rightarrow> nat \<Rightarrow> string \<times> string \<times> nat" where
  \<comment> \<open>the inner loop of the string branch, entered after the opening quote: the characters
      still to read, the value so far and the column; returns the value, what is left of the
      line and the column after the closing quote (or the end of the line)\<close>
  "read_string [] v col = (v, [], col)"
| "read_string (c # cs) v col =
     (if c = CHR 0x22 then (v, cs, Suc col)
      else if c = CHR 0x5C then
        (case cs of
           [] \<Rightarrow> read_string [] (v @ [c]) (Suc col)
         | e # cs' \<Rightarrow> read_string cs' (v @ [unescape e]) (col + 2))
      else read_string cs (v @ [c]) (Suc col))"

lemma read_string_length: "read_string cs v col = (v', rest, col') \<Longrightarrow> length rest \<le> length cs"
proof (induction cs v col arbitrary: v' rest col' rule: read_string.induct)
  case (1 v col)
  then show ?case by simp
next
  case (2 c cs v col)
  show ?case
  proof (cases "c = CHR 0x22")
    case True
    with 2 show ?thesis by auto
  next
    case q: False
    show ?thesis
    proof (cases "c = CHR 0x5C")
      case True
      show ?thesis
      proof (cases cs)
        case Nil
        with 2 q True show ?thesis by auto
      next
        case (Cons e cs')
        with 2 q True have "length rest \<le> length cs'" by auto
        with Cons show ?thesis by simp
      qed
    next
      case False
      with 2 q have "length rest \<le> length cs" by auto
      then show ?thesis by simp
    qed
  qed
qed

definition mk_token :: "token_type \<Rightarrow> string \<Rightarrow> nat \<Rightarrow> nat \<Rightarrow> token" where
  "mk_token ty v line col = \<lparr>ttype = ty, tvalue = v, tline = line, tcolumn = col\<rparr>"

function tokenize_line :: "nat \<Rightarrow> nat \<Rightarrow> string \<Rightarrow> token list" where
  \<comment> \<open>the \<open>while (column < line.length)\<close> loop on line number \<open>lineNum\<close> (from 0), at
      \<open>column\<close>, with the rest of the line from that column\<close>
  "tokenize_line lineNum column [] = []"
| "tokenize_line lineNum column (c # cs) =
     (if is_space c then tokenize_line lineNum (Suc column) cs
      else if c = CHR ''/'' \<and> (case cs of [] \<Rightarrow> False | d # _ \<Rightarrow> d = CHR ''/'') then []
      else if c = CHR ''#'' then []
      else if c = CHR 0x22 then
        (case read_string cs [] (Suc column) of
           (v, rest, column') \<Rightarrow>
             mk_token StringT v (Suc lineNum) (Suc column) # tokenize_line lineNum column' rest)
      else if is_digit c then
        (if c = CHR ''0'' \<and> (case cs of [] \<Rightarrow> False | d # _ \<Rightarrow> d = CHR ''x'') then
           (let v = ''0x'' @ takeWhile is_hex (tl cs)
            in mk_token NumberT v (Suc lineNum) (Suc column)
                 # tokenize_line lineNum (column + length v) (dropWhile is_hex (tl cs)))
         else
           (let v = takeWhile is_decimal_char (c # cs)
            in mk_token NumberT v (Suc lineNum) (Suc column)
                 # tokenize_line lineNum (column + length v) (dropWhile is_decimal_char cs)))
      else if is_ident_start c then
        (let v = takeWhile is_ident_char (c # cs)
         in mk_token (if v = ''true'' \<or> v = ''false'' then BooleanT else Identifier) v
              (Suc lineNum) (Suc column)
              # tokenize_line lineNum (column + length v) (dropWhile is_ident_char cs))
      else if c \<in> set ''=:;,{}()'' then
        mk_token (if c = CHR ''='' \<or> c = CHR '':'' then Operator else Delimiter) [c]
          (Suc lineNum) (Suc column) # tokenize_line lineNum (Suc column) cs
      else tokenize_line lineNum (Suc column) cs)"
  by pat_completeness auto
termination
proof (relation "measure (\<lambda>(lineNum, column, cs). length cs)")
  show "wf (measure (\<lambda>(lineNum, column, cs). length cs))" by simp
qed (auto dest!: read_string_length [OF sym] simp: less_Suc_eq_le length_dropWhile_le
      split: list.splits intro: le_trans [OF length_dropWhile_le])

definition tokenize :: "string \<Rightarrow> token list" where
  \<comment> \<open>the outer \<open>for\<close> loop over the lines\<close>
  "tokenize content =
     concat (map (\<lambda>(lineNum, line). tokenize_line lineNum 0 line)
               (enumerate 0 (split_lines content)))"

section \<open>Errors\<close>

text \<open>
  Every \<open>throw\<close> of the program is a value. \<open>Error\<close> is the plain \<open>new Error(message)\<close> of
  the libconfig parser, \<open>TypeError\<close> is what the JavaScript runtime itself raises (with the
  message text of V8, the engine the program runs on), \<open>ConfigParseError\<close> is the class of
  configParser.ts with its message and optional line and column. \<open>Unmodelled\<close> is no error
  of the program: it marks an input on which this embedding does not follow the runtime
  (named where it is produced). \<open>OutOfFuel\<close> is the recursion bound of the parser
  functions below; \<open>parse_fuel_enough\<close> shows it is never reached.
\<close>

datatype js_error =
    Error string
  | TypeError string
  | ConfigParseError string "nat option" "nat option"
  | Unmodelled string
  | OutOfFuel

definition andThen :: "js_error + 'a \<Rightarrow> ('a \<Rightarrow> js_error + 'b) \<Rightarrow> js_error + 'b" where
  "andThen m f = (case m of Inl e \<Rightarrow> Inl e | Inr x \<Rightarrow> f x)"

fun mapE :: "('a \<Rightarrow> js_error + 'b) \<Rightarrow> 'a list \<Rightarrow> js_error + 'b list" where
  \<comment> \<open>\<open>xs.map(f)\<close> where \<open>f\<close> may throw: the first throw ends the loop\<close>
  "mapE f [] = Inr []"
| "mapE f (x # xs) = andThen (f x) (\<lambda>y. andThen (mapE f xs) (\<lambda>ys. Inr (y # ys)))"

lemma andThen_cong [fundef_cong]:
  "m = m' \<Longrightarrow> (\<And>x. m' = Inr x \<Longrightarrow> f x = g x) \<Longrightarrow> andThen m f = andThen m' g"
  by (auto simp: andThen_def split: sum.splits)

lemma mapE_cong [fundef_cong]:
  "xs = ys \<Longrightarrow> (\<And>x. x \<in> set ys \<Longrightarrow> f x = g x) \<Longrightarrow> mapE f xs = mapE g ys"
proof (induction ys arbitrary: xs)
  case Nil
  then show ?case by simp
next
  case (Cons y ys)
  then have "mapE f ys = mapE g ys" by simp
  with Cons show ?case by simp
qed

section \<open>Numbers and values of the generic tree\<close>

text \<open>
  A JavaScript number is a double. A finite double is modelled by its exact value, a
  rational; \<open>to_double\<close> rounds a rational to the nearest double, ties to the even
  significand, with overflow to an infinity and underflow to zero, as the runtime does when
  it reads a numeral. The two zeros are one value: \<open>===\<close>, the comparisons, \<open>%\<close>, the truth
  value and \<open>String\<close> do not tell them apart, and the program does nothing else with a number.
\<close>

datatype jsnum = Num rat | PosInf | NegInf | NaN

function bit_length :: "int \<Rightarrow> int" where
  \<comment> \<open>the number of binary digits of a positive integer\<close>
  "bit_length n = (if n \<le> 0 then 0 else 1 + bit_length (n div 2))"
  by pat_completeness auto
termination
  by (relation "measure nat") auto

declare bit_length.simps [simp del]

definition pow2 :: "int \<Rightarrow> rat" where
  "pow2 k = (if 0 \<le> k then 2 ^ nat k else 1 / 2 ^ nat (- k))"

definition pow10 :: "int \<Rightarrow> rat" where
  "pow10 k = (if 0 \<le> k then 10 ^ nat k else 1 / 10 ^ nat (- k))"

definition binary_exponent :: "rat \<Rightarrow> int" where
  \<comment> \<open>for \<open>r > 0\<close>, the \<open>e\<close> with \<open>2 ^ e \<le> r < 2 ^ (e + 1)\<close>\<close>
  "binary_exponent r =
     (let (a, b) = quotient_of r; e = bit_length a - bit_length b
      in if r < pow2 e then e - 1 else e)"

definition round_half_even :: "rat \<Rightarrow> int" where
  "round_half_even x =
     (let f = \<lfloor>x\<rfloor>; d = x - of_int f
      in if d < 1 / 2 then f else if 1 / 2 < d then f + 1 else if even f then f else f + 1)"

definition to_double :: "rat \<Rightarrow> jsnum" where
  \<comment> \<open>the Number value for \<open>r\<close>: a double is a multiple \<open>n * 2 ^ (e - 52)\<close> with
      \<open>n \<le> 2 ^ 53\<close> and \<open>- 1022 \<le> e \<le> 1023\<close>; from \<open>2 ^ 1024\<close> on the result is an infinity\<close>
  "to_double r =
     (if r = 0 then Num 0
      else
        (let e = max (binary_exponent \<bar>r\<bar>) (- 1022);
             n = round_half_even (\<bar>r\<bar> / pow2 (e - 52))
         in if 1024 \<le> e \<or> (e = 1023 \<and> n = 9007199254740992) then (if r < 0 then NegInf else PosInf)
            else Num ((if r < 0 then - 1 else 1) * of_int n * pow2 (e - 52))))"

definition digits_value :: "string \<Rightarrow> int" where
  "digits_value s = foldl (\<lambda>acc c. 10 * acc + (of_char c - 48)) 0 s"

definition read_exponent :: "string \<Rightarrow> int \<times> string" where
  \<comment> \<open>the exponent part \<open>[eE][+-]?[0-9]+\<close> at the start of a text, if there is one: its
      value (0 without one) and the rest of the text\<close>
  "read_exponent s =
     (case s of
        [] \<Rightarrow> (0, s)
      | c # cs \<Rightarrow>
          if c = CHR ''e'' \<or> c = CHR ''E'' then
            (let neg = (cs \<noteq> [] \<and> hd cs = CHR ''-'');
                 ds = (if cs \<noteq> [] \<and> (hd cs = CHR ''-'' \<or> hd cs = CHR ''+'') then tl cs else cs)
             in if takeWhile is_digit ds = [] then (0, s)
                else ((if neg then - 1 else 1) * digits_value (takeWhile is_digit ds),
                      dropWhile is_digit ds))
          else (0, s))"

definition read_unsigned_decimal :: "string \<Rightarrow> (rat \<times> string) option" where
  \<comment> \<open>the longest prefix of the forms \<open>digits\<close>, \<open>digits.\<close>, \<open>digits.digits\<close>, \<open>.digits\<close>,
      each with an optional exponent part: its value and the rest of the text\<close>
  "read_unsigned_decimal s =
     (let ip = takeWhile is_digit s; r = dropWhile is_digit s;
          point = (r \<noteq> [] \<and> hd r = CHR ''.'' \<and> (ip \<noteq> [] \<or> takeWhile is_digit (tl r) \<noteq> []));
          fp = (if point then takeWhile is_digit (tl r) else []);
          r' = (if point then dropWhile is_digit (tl r) else r)
      in if ip = [] \<and> fp = [] then None
         else
           (let (ex, rest) = read_exponent r'
            in Some ((of_int (digits_value ip) + of_int (digits_value fp) / 10 ^ length fp) * pow10 ex,
                     rest)))"

definition read_decimal :: "string \<Rightarrow> (jsnum \<times> string) option" where
  \<comment> \<open>the longest prefix that is a decimal literal of the runtime (\<open>StrDecimalLiteral\<close>): an
      optional sign, then \<open>Infinity\<close> or an unsigned decimal\<close>
  "read_decimal s =
     (let neg = (s \<noteq> [] \<and> hd s = CHR ''-'');
          u = (if s \<noteq> [] \<and> (hd s = CHR ''-'' \<or> hd s = CHR ''+'') then tl s else s)
      in if startsWith u ''Infinity'' then Some (if neg then NegInf else PosInf, drop 8 u)
         else map_option (\<lambda>(v, rest). (to_double (if neg then - v else v), rest))
                (read_unsigned_decimal u))"

definition parseFloat :: "string \<Rightarrow> jsnum" where
  \<comment> \<open>the built-in: leading white space is skipped, the longest prefix that is a decimal
      literal is the number, \<open>NaN\<close> without one\<close>
  "parseFloat s = (case read_decimal (dropWhile is_space s) of None \<Rightarrow> NaN | Some (v, _) \<Rightarrow> v)"

datatype jsval =
    JString string
  | JNumber jsnum
  | JBoolean bool
  | JObject "(string \<times> jsval) list"
  | JArray "jsval list"

definition js_get :: "jsval \<Rightarrow> string \<Rightarrow> jsval option" where
  \<comment> \<open>\<open>data.key\<close>, \<open>None\<close> for \<open>undefined\<close>. The program reads only the member names of the
      configuration format; strings, numbers, booleans and arrays have none of them
      (\<open>keys\<close> of an array apart, which the program never reads).\<close>
  "js_get v k = (case v of JObject ps \<Rightarrow> map_of ps k | _ \<Rightarrow> None)"

definition obj_set :: "(string \<times> jsval) list \<Rightarrow> string \<Rightarrow> jsval \<Rightarrow> js_error + (string \<times> jsval) list" where
  \<comment> \<open>\<open>obj[key] = value\<close> on an object created by \<open>{}\<close>: the last write of a key wins.
      The key \<open>__proto__\<close> is the prototype accessor: a primitive value is ignored, an object
      or array would replace the prototype, which is not modelled.\<close>
  "obj_set ps k v =
     (if k = ''__proto__'' then
        (case v of
           JObject _ \<Rightarrow> Inl (Unmodelled ''assignment to __proto__'')
         | JArray _ \<Rightarrow> Inl (Unmodelled ''assignment to __proto__'')
         | _ \<Rightarrow> Inr ps)
      else Inr (AList.update k v ps))"

definition truthy :: "jsval \<Rightarrow> bool" where
  "truthy v =
     (case v of
        JString s \<Rightarrow> s \<noteq> []
      | JNumber n \<Rightarrow> n \<noteq> Num 0 \<and> n \<noteq> NaN
      | JBoolean b \<Rightarrow> b
      | JObject _ \<Rightarrow> True
      | JArray _ \<Rightarrow> True)"

definition truthy_opt :: "jsval option \<Rightarrow> bool" where
  \<comment> \<open>the truth value of a member that may be \<open>undefined\<close>; also \<open>Boolean(x)\<close>\<close>
  "truthy_opt x = (case x of None \<Rightarrow> False | Some v \<Rightarrow> truthy v)"

section \<open>Generic parser (libconfigParser.ts)\<close>

definition unexpected_token :: "token \<Rightarrow> js_error" where
  "unexpected_token t = Error (''Unexpected token: '' @ tvalue t @ '' at line '' @ show_nat (tline t))"

definition expected_operator :: "string \<Rightarrow> token \<Rightarrow> js_error" where
  "expected_operator key t = Error (''Expected : or = after '' @ key @ '' at line '' @ show_nat (tline t))"

definition skip_separator :: "bool \<Rightarrow> token list \<Rightarrow> token list" where
  \<comment> \<open>the optional \<open>;\<close> or \<open>,\<close> after a member (\<open>semi\<close>), the optional \<open>,\<close> after an array
      element\<close>
  "skip_separator semi ts =
     (case ts of
        [] \<Rightarrow> []
      | t # ts' \<Rightarrow>
          if ttype t = Delimiter \<and> ((semi \<and> tvalue t = '';'') \<or> tvalue t = '','') then ts' else ts)"

text \<open>
  The three parser functions take \<open>tokens\<close> and \<open>index\<close> and return the value and
  \<open>nextIndex\<close>. Here they take the tokens from \<open>index\<close> on and return the value and the tokens
  from \<open>nextIndex\<close> on; \<open>parseObject\<close> and \<open>parseArray\<close> carry the object and the array
  their loops build. The first argument bounds the number of nested calls and loop rounds.
\<close>

fun parseValue :: "nat \<Rightarrow> token list \<Rightarrow> js_error + (jsval \<times> token list)"
  and parseObject :: "nat \<Rightarrow> (string \<times> jsval) list \<Rightarrow> token list \<Rightarrow> js_error + (jsval \<times> token list)"
  and parseArray :: "nat \<Rightarrow> jsval list \<Rightarrow> token list \<Rightarrow> js_error + (jsval \<times> token list)"
where
  "parseValue 0 ts = Inl OutOfFuel"
| "parseValue (Suc fuel) [] = Inl (Error ''Unexpected end of input'')"
| "parseValue (Suc fuel) (t # ts) =
     (case ttype t of
        StringT \<Rightarrow> Inr (JString (tvalue t), ts)
      | NumberT \<Rightarrow>
          if startsWith (tvalue t) ''0x'' then Inr (JString (tvalue t), ts)
          else Inr (JNumber (parseFloat (tvalue t)), ts)
      | BooleanT \<Rightarrow> Inr (JBoolean (tvalue t = ''true''), ts)
      | Delimiter \<Rightarrow>
          if tvalue t = ''{'' then parseObject fuel [] ts
          else if tvalue t = ''('' then parseArray fuel [] ts
          else Inl (unexpected_token t)
      | _ \<Rightarrow> Inl (unexpected_token t))"
| "parseObject 0 obj ts = Inl OutOfFuel"
| "parseObject (Suc fuel) obj [] = Inr (JObject obj, [])"
| "parseObject (Suc fuel) obj (t # ts) =
     (if ttype t = Delimiter \<and> tvalue t = ''}'' then Inr (JObject obj, ts)
      else if ttype t = Identifier then
        (case ts of
           [] \<Rightarrow> Inl (expected_operator (tvalue t) t)
         | op # ts' \<Rightarrow>
             if ttype op \<noteq> Operator \<or> (tvalue op \<noteq> '':'' \<and> tvalue op \<noteq> ''='')
             then Inl (expected_operator (tvalue t) t)
             else andThen (parseValue fuel ts') (\<lambda>(v, rest).
                  andThen (obj_set obj (tvalue t) v) (\<lambda>obj'.
                  parseObject fuel obj' (skip_separator True rest))))
      else parseObject fuel obj ts)"
| "parseArray 0 arr ts = Inl OutOfFuel"
| "parseArray (Suc fuel) arr [] = Inl (Error ''Unterminated array'')"
| "parseArray (Suc fuel) arr (t # ts) =
     (if ttype t = Delimiter \<and> tvalue t = '')'' then Inr (JArray arr, ts)
      else andThen (parseValue fuel (t # ts)) (\<lambda>(v, rest).
           parseArray fuel (arr @ [v]) (skip_separator False rest)))"

definition parseLibconfig :: "string \<Rightarrow> js_error + jsval" where
  "parseLibconfig content =
     (let tokens = tokenize content; fuel = 2 * length tokens + 2
      in if tokens \<noteq> [] \<and> ttype (hd tokens) = Identifier
         then andThen (parseObject fuel [] tokens) (\<lambda>(v, rest). Inr v)
         else andThen (parseValue fuel tokens) (\<lambda>(v, rest). Inr v))"

text \<open>
  The bound \<open>2 * length tokens + 2\<close> that \<open>parseLibconfig\<close> starts with is never used up:
  every call consumes a token before the next call is made at the same depth.
\<close>

lemma skip_separator_length: "length (skip_separator b ts) \<le> length ts"
  by (auto simp: skip_separator_def split: list.splits)

lemma parse_fuel_aux:
  "(\<forall>ts. 2 * length ts < fuel \<longrightarrow>
      parseValue fuel ts \<noteq> Inl OutOfFuel \<and>
      (\<forall>v rest. parseValue fuel ts = Inr (v, rest) \<longrightarrow> length rest < length ts)) \<and>
   (\<forall>ts obj. 2 * length ts < fuel \<longrightarrow>
      parseObject fuel obj ts \<noteq> Inl OutOfFuel \<and>
      (\<forall>v rest. parseObject fuel obj ts = Inr (v, rest) \<longrightarrow> length rest \<le> length ts)) \<and>
   (\<forall>ts arr. 2 * length ts + 1 < fuel \<longrightarrow>
      parseArray fuel arr ts \<noteq> Inl OutOfFuel \<and>
      (\<forall>v rest. parseArray fuel arr ts = Inr (v, rest) \<longrightarrow> length rest < length ts))"
proof (induction fuel)
  case 0
  then show ?case by simp
next
  case (Suc fuel)
  then have V: "\<And>ts. 2 * length ts < fuel \<Longrightarrow> parseValue fuel ts \<noteq> Inl OutOfFuel"
    and Vr: "\<And>ts v rest. 2 * length ts < fuel \<Longrightarrow> parseValue fuel ts = Inr (v, rest) \<Longrightarrow> length rest < length ts"
    and O: "\<And>ts obj. 2 * length ts < fuel \<Longrightarrow> parseObject fuel obj ts \<noteq> Inl OutOfFuel"
    and Or: "\<And>ts obj v rest. 2 * length ts < fuel \<Longrightarrow> parseObject fuel obj ts = Inr (v, rest) \<Longrightarrow> length rest \<le> length ts"
    and A: "\<And>ts arr. 2 * length ts + 1 < fuel \<Longrightarrow> parseArray fuel arr ts \<noteq> Inl OutOfFuel"
    and Ar: "\<And>ts arr v rest. 2 * length ts + 1 < fuel \<Longrightarrow> parseArray fuel arr ts = Inr (v, rest) \<Longrightarrow> length rest < length ts"
    by blast+
  have val: "parseValue (Suc fuel) ts \<noteq> Inl OutOfFuel \<and>
      (\<forall>v rest. parseValue (Suc fuel) ts = Inr (v, rest) \<longrightarrow> length rest < length ts)"
    if "2 * length ts < Suc fuel" for ts
  proof (cases ts)
    case Nil
    then show ?thesis by simp
  next
    case (Cons t ts')
    with that have f: "2 * length ts' < fuel" "2 * length ts' + 1 < fuel" by simp_all
    show ?thesis
      using O [OF f(1)] Or [OF f(1)] A [OF f(2)] Ar [OF f(2)] Cons
      by (auto simp: andThen_def unexpected_token_def Let_def
          split: token_type.splits sum.splits list.splits dest!: Or [OF f(1)] Ar [OF f(2)]) 
  qed
  have obj: "parseObject (Suc fuel) obj ts \<noteq> Inl OutOfFuel \<and>
      (\<forall>v rest. parseObject (Suc fuel) obj ts = Inr (v, rest) \<longrightarrow> length rest \<le> length ts)"
    if "2 * length ts < Suc fuel" for ts obj
  proof (cases ts)
    case Nil
    then show ?thesis by simp
  next
    case (Cons t ts')
    with that have f: "2 * length ts' < fuel" by simp
    show ?thesis
    proof (cases "ttype t = Delimiter \<and> tvalue t = ''}''")
      case True
      with Cons show ?thesis by simp
    next
      case nclose: False
      show ?thesis
      proof (cases "ttype t = Identifier")
        case False
        with nclose Cons O [OF f] Or [OF f] show ?thesis by (fastforce intro: le_SucI)
      next
        case True
        show ?thesis
        proof (cases ts')
          case Nil
          with True nclose Cons show ?thesis by (simp add: expected_operator_def)
        next
          case (Cons op ts'')
          with f have g: "2 * length ts'' < fuel" by simp
          show ?thesis
          proof (cases "ttype op \<noteq> Operator \<or> (tvalue op \<noteq> '':'' \<and> tvalue op \<noteq> ''='')")
            case True
            with \<open>ttype t = Identifier\<close> nclose Cons \<open>ts = t # ts'\<close> show ?thesis
              by (simp add: expected_operator_def)
          next
            case False
            show ?thesis
            proof (cases "parseValue fuel ts''")
              case (Inl e)
              with V [OF g] False \<open>ttype t = Identifier\<close> nclose Cons \<open>ts = t # ts'\<close>
              show ?thesis by (auto simp: andThen_def expected_operator_def)
            next
              case (Inr r)
              obtain v rest where r: "r = (v, rest)" by (cases r)
              with Inr Vr [OF g] have lr: "length rest < length ts''" by simp
              show ?thesis
              proof (cases "obj_set obj (tvalue t) v")
                case (Inl e)
                then have "e \<noteq> OutOfFuel"
                  by (auto simp: obj_set_def split: if_splits jsval.splits)
                with Inl Inr r False \<open>ttype t = Identifier\<close> nclose Cons \<open>ts = t # ts'\<close>
                show ?thesis by (auto simp: andThen_def expected_operator_def)
              next
                case (Inr obj')
                let ?rest = "skip_separator True rest"
                have h: "2 * length ?rest < fuel"
                  using lr g skip_separator_length [of True rest] by simp
                have "length ?rest \<le> length ts"
                  using lr skip_separator_length [of True rest] Cons \<open>ts = t # ts'\<close> by simp
                with O [OF h, of obj'] Or [OF h, of obj'] Inr \<open>parseValue fuel ts'' = Inr r\<close> r False
                  \<open>ttype t = Identifier\<close> nclose Cons \<open>ts = t # ts'\<close>
                show ?thesis by (auto simp: andThen_def expected_operator_def dest: le_trans)
              qed
            qed
          qed
        qed
      qed
    qed
  qed
  have arr: "parseArray (Suc fuel) arr ts \<noteq> Inl OutOfFuel \<and>
      (\<forall>v rest. parseArray (Suc fuel) arr ts = Inr (v, rest) \<longrightarrow> length rest < length ts)"
    if "2 * length ts + 1 < Suc fuel" for ts arr
  proof (cases ts)
    case Nil
    then show ?thesis by simp
  next
    case (Cons t ts')
    with that have f: "2 * length (t # ts') < fuel" by simp
    show ?thesis
    proof (cases "ttype t = Delimiter \<and> tvalue t = '')''")
      case True
      with Cons show ?thesis by simp
    next
      case False
      show ?thesis
      proof (cases "parseValue fuel (t # ts')")
        case (Inl e)
        with V [OF f] False Cons show ?thesis by (auto simp: andThen_def expected_operator_def)
      next
        case (Inr r)
        obtain v rest where r: "r = (v, rest)" by (cases r)
        with Inr Vr [OF f] have lr: "length rest < length (t # ts')" by simp
        let ?rest = "skip_separator False rest"
        have h: "2 * length ?rest + 1 < fuel"
          using lr f skip_separator_length [of False rest] by simp
        have "length ?rest < length ts"
          using lr skip_separator_length [of False rest] Cons by simp
        with A [OF h, of "arr @ [v]"] Ar [OF h, of "arr @ [v]"] Inr r False Cons
        show ?thesis by (auto simp: andThen_def dest: less_trans)
      qed
    qed
  qed
  from val obj arr show ?case by blast
qed

lemma parse_fuel_enough: "parseLibconfig content \<noteq> Inl OutOfFuel"
proof -
  let ?ts = "tokenize content"
  have f: "2 * length ?ts < 2 * length ?ts + 2" by simp
  from parse_fuel_aux [of "2 * length ?ts + 2"] f
  have "parseValue (2 * length ?ts + 2) ?ts \<noteq> Inl OutOfFuel"
    and "parseObject (2 * length ?ts + 2) [] ?ts \<noteq> Inl OutOfFuel"
    by blast+
  then show ?thesis
    by (auto simp: parseLibconfig_def Let_def andThen_def split: sum.splits)
qed

section \<open>Conversions of the runtime: \<open>String\<close>, \<open>Number\<close>\<close>

function show_int :: "int \<Rightarrow> string" where
  \<comment> \<open>the decimal digits of a non-negative integer\<close>
  "show_int n = (if n < 10 then [char_of (48 + n)] else show_int (n div 10) @ [char_of (48 + n mod 10)])"
  by pat_completeness auto
termination
  by (relation "measure nat") auto

declare show_int.simps [simp del]

definition strip_trailing_zeros :: "string \<Rightarrow> string" where
  "strip_trailing_zeros s = rev (dropWhile (\<lambda>c. c = CHR ''0'') (rev s))"

definition format_digits :: "string \<Rightarrow> int \<Rightarrow> string" where
  \<comment> \<open>the layout rules of Number::toString: \<open>s\<close> are the significant digits (no trailing
      zero), the decimal point is after the first \<open>n\<close> of them\<close>
  "format_digits s n =
     (let k = int (length s)
      in if k \<le> n \<and> n \<le> 21 then s @ replicate (nat (n - k)) CHR ''0''
         else if 0 < n \<and> n \<le> 21 then take (nat n) s @ ''.'' @ drop (nat n) s
         else if - 6 < n \<and> n \<le> 0 then ''0.'' @ replicate (nat (- n)) CHR ''0'' @ s
         else
           (let e = n - 1; ex = (if e < 0 then ''-'' else ''+'') @ show_int \<bar>e\<bar>
            in if k = 1 then s @ ''e'' @ ex else take 1 s @ ''.'' @ drop 1 s @ ''e'' @ ex))"

definition decimal_exponent :: "rat \<Rightarrow> int" where
  \<comment> \<open>for \<open>r > 0\<close>, the \<open>n\<close> with \<open>10 ^ (n - 1) \<le> r < 10 ^ n\<close>\<close>
  "decimal_exponent r =
     (let (a, b) = quotient_of r; n = int (length (show_int a)) - int (length (show_int b))
      in if r < pow10 n then n else n + 1)"

fun shortest_decimal :: "nat \<Rightarrow> nat \<Rightarrow> rat \<Rightarrow> int \<Rightarrow> rat" where
  \<comment> \<open>the decimal of the fewest significant digits, from \<open>k\<close> digits on, whose Number value
      is the double \<open>r > 0\<close>, the one nearest to \<open>r\<close> if there are two; \<open>n\<close> is the decimal
      exponent of \<open>r\<close>. Seventeen digits are enough for every double; a rational that is no
      double is no number of the program and is returned as it is.\<close>
  "shortest_decimal 0 k r n = r"
| "shortest_decimal (Suc fuel) k r n =
     (let u = pow10 (n - int k); s = \<lfloor>r / u\<rfloor>;
          lo = of_int s * u; hi = lo + u;
          lo_ok = (to_double lo = Num r); hi_ok = (to_double hi = Num r)
      in if lo_ok \<and> hi_ok then
           (if r - lo < hi - r then lo
            else if hi - r < r - lo then hi
            else if even s then lo else hi)
         else if lo_ok then lo
         else if hi_ok then hi
         else shortest_decimal fuel (Suc k) r n)"

definition numToString :: "jsnum \<Rightarrow> string" where
  \<comment> \<open>\<open>String(n)\<close> and \<open>`${n}`\<close> for a number (Number::toString)\<close>
  "numToString x =
     (case x of
        NaN \<Rightarrow> ''NaN''
      | PosInf \<Rightarrow> ''Infinity''
      | NegInf \<Rightarrow> ''-Infinity''
      | Num r \<Rightarrow>
          if r = 0 then ''0''
          else
            (let v = shortest_decimal 17 1 \<bar>r\<bar> (decimal_exponent \<bar>r\<bar>);
                 n = decimal_exponent v;
                 ds = show_int \<lfloor>v / pow10 (n - 17)\<rfloor>
             in (if r < 0 then ''-'' else []) @ format_digits (strip_trailing_zeros ds) n))"

definition radix_digit_value :: "char \<Rightarrow> int" where
  \<comment> \<open>the value of a digit \<open>0-9\<close>, \<open>a-z\<close> or \<open>A-Z\<close>\<close>
  "radix_digit_value c =
     (let n = (of_char c :: int) in if n \<le> 57 then n - 48 else if 97 \<le> n then n - 87 else n - 55)"

definition radix_value :: "int \<Rightarrow> string \<Rightarrow> int" where
  "radix_value b s = foldl (\<lambda>acc c. b * acc + radix_digit_value c) 0 s"

definition read_radix :: "string \<Rightarrow> jsnum option" where
  \<comment> \<open>a whole text \<open>0x\<close>, \<open>0o\<close> or \<open>0b\<close> (the letter in either case) with at least one digit
      of the radix\<close>
  "read_radix t =
     (let p = take 2 t; ds = drop 2 t;
          b = (if p = ''0x'' \<or> p = ''0X'' then 16
               else if p = ''0o'' \<or> p = ''0O'' then 8
               else if p = ''0b'' \<or> p = ''0B'' then 2 else (0::int))
      in if b \<noteq> 0 \<and> ds \<noteq> [] \<and> list_all (\<lambda>c. is_hex c \<and> radix_digit_value c < b) ds
         then Some (to_double (of_int (radix_value b ds))) else None)"

definition strToNumber :: "string \<Rightarrow> jsnum" where
  \<comment> \<open>\<open>Number(s)\<close> for a string (StringToNumber): white space around the text is dropped,
      the empty text is 0, a text that is a literal in radix 16, 8 or 2 or a decimal literal
      is its Number value, every other text is \<open>NaN\<close>\<close>
  "strToNumber s =
     (let t = trim s
      in if t = [] then Num 0
         else
           (case read_radix t of
              Some v \<Rightarrow> v
            | None \<Rightarrow> (case read_decimal t of Some (v, []) \<Rightarrow> v | _ \<Rightarrow> NaN)))"

fun js_String :: "jsval \<Rightarrow> js_error + string" where
  \<comment> \<open>\<open>String(v)\<close>. An object with a member named \<open>toString\<close> has no callable \<open>toString\<close>
      any more, and the conversion throws; an array is its elements joined by commas.\<close>
  "js_String (JString s) = Inr s"
| "js_String (JNumber n) = Inr (numToString n)"
| "js_String (JBoolean b) = Inr (if b then ''true'' else ''false'')"
| "js_String (JObject ps) =
     (if map_of ps ''toString'' \<noteq> None then Inl (TypeError ''Cannot convert object to primitive value'')
      else Inr ''[object Object]'')"
| "js_String (JArray xs) = andThen (mapE js_String xs) (\<lambda>ss. Inr (join '','' ss))"

definition js_String_opt :: "jsval option \<Rightarrow> js_error + string" where
  \<comment> \<open>\<open>String(x)\<close> where \<open>x\<close> may be \<open>undefined\<close>\<close>
  "js_String_opt x = (case x of None \<Rightarrow> Inr ''undefined'' | Some v \<Rightarrow> js_String v)"

definition js_Number :: "jsval \<Rightarrow> js_error + jsnum" where
  \<comment> \<open>\<open>Number(v)\<close> for a value that is not \<open>undefined\<close>: an object or array is converted to
      its string first, and that conversion may throw\<close>
  "js_Number v =
     (case v of
        JString s \<Rightarrow> Inr (strToNumber s)
      | JNumber n \<Rightarrow> Inr n
      | JBoolean b \<Rightarrow> Inr (Num (if b then 1 else 0))
      | JObject ps \<Rightarrow> andThen (js_String (JObject ps)) (\<lambda>s. Inr (strToNumber s))
      | JArray xs \<Rightarrow> andThen (js_String (JArray xs)) (\<lambda>s. Inr (strToNumber s)))"

definition js_Number_opt :: "jsval option \<Rightarrow> js_error + jsnum option" where
  \<comment> \<open>the pattern \<open>if (x !== undefined) field = Number(x)\<close>\<close>
  "js_Number_opt x = (case x of None \<Rightarrow> Inr None | Some v \<Rightarrow> andThen (js_Number v) (\<lambda>n. Inr (Some n)))"

section \<open>Data model (types/logiops.ts)\<close>

text \<open>
  The interfaces of the program. An optional member is an \<open>option\<close>. A \<open>Date\<close> is
  represented by the text its \<open>toISOString()\<close> returns. The member \<open>gesture\<close> of
  \<open>ButtonActionParameters\<close> is never written or read by the functions modelled here and is
  left out; \<open>mode\<close> is the member the mapper stores through the index signature.
\<close>

type_synonym date = string

datatype button_action =
    ButtonAction (a_type: string) (a_parameters: "action_parameters option")
  and action_parameters =
    ActionParameters (p_keys: "string list option") (p_sensor: "jsnum option")
      (p_gestures: "gesture_mapping list option") (p_mode: "string option")
      (p_axis: "string option") (p_axis_multiplier: "jsnum option")
  and gesture_mapping =
    GestureMapping (g_direction: string) (g_mode: string) (g_action: button_action)
      (g_threshold: "jsnum option") (g_interval: "jsnum option")

record smartshift_settings =
  on :: bool
  threshold :: jsnum

record dpi_sensor =
  dpi :: jsnum
  default :: "bool option"

record dpi_settings =
  sensors :: "dpi_sensor list"

record button_mapping =
  cid :: string
  action :: button_action

record scroll_wheel_settings =
  hires :: "bool option"
  invert :: "bool option"
  target :: "bool option"
  up :: "button_action option"
  down :: "button_action option"
  left :: "button_action option"
  right :: "button_action option"

record device =
  name :: string
  vid :: "string option"
  pid :: "string option"
  timeout :: "jsnum option"
  smartshift :: "smartshift_settings option"
  device_dpi :: "dpi_settings option"
  buttons :: "button_mapping list option"
  gestures :: "gesture_mapping list option"
  scrollWheel :: "scroll_wheel_settings option"

record configuration_metadata =
  version :: string
  created :: date
  modified :: date
  filename :: "string option"
  originalContent :: "string option"

record configuration =
  devices :: "device list"
  metadata :: configuration_metadata

section \<open>Domain mapper (configParser.ts)\<close>

definition normalizeHexValue :: "string \<Rightarrow> string" where
  "normalizeHexValue v =
     (let cleaned = toLowerCase (trim v)
      in if startsWith cleaned ''0x'' then cleaned else ''0x'' @ cleaned)"

definition action_type_alias :: "string \<Rightarrow> string" where
  \<comment> \<open>the \<open>if\<close> chain on \<open>normalizedType\<close> that gives \<open>actionType\<close>\<close>
  "action_type_alias normalizedType =
     (if normalizedType = ''keypress'' then ''key''
      else if normalizedType = ''gestures'' then ''gesture''
      else if normalizedType = ''changedpi'' then ''changeDPI''
      else normalizedType)"

definition keys_parameters :: "string list \<Rightarrow> action_parameters" where
  "keys_parameters ks = ActionParameters (Some ks) None None None None None"

definition sensor_parameters :: "jsnum \<Rightarrow> action_parameters" where
  "sensor_parameters n = ActionParameters None (Some n) None None None None"

definition gestures_parameters :: "gesture_mapping list \<Rightarrow> action_parameters" where
  "gestures_parameters gs = ActionParameters None None (Some gs) None None None"

definition axis_parameters :: "string \<Rightarrow> string \<Rightarrow> jsnum option \<Rightarrow> action_parameters" where
  "axis_parameters m a k = ActionParameters None None None (Some m) (Some a) k"

definition read_keys :: "jsval \<Rightarrow> js_error + string list" where
  \<comment> \<open>\<open>Array.isArray(keys) ? keys.map(k => String(k)) : [String(keys)]\<close>\<close>
  "read_keys ks = (case ks of JArray xs \<Rightarrow> mapE js_String xs | _ \<Rightarrow> andThen (js_String ks) (\<lambda>k. Inr [k]))"

definition read_axis :: "jsval \<Rightarrow> js_error + action_parameters option" where
  \<comment> \<open>the parameters \<open>{mode: String(data.mode), axis: String(data.axis)}\<close> with
      \<open>axis_multiplier = Number(data.axis_multiplier)\<close> when that member is defined; nothing
      unless \<open>data.mode && data.axis\<close>\<close>
  "read_axis data =
     (case (js_get data ''mode'', js_get data ''axis'') of
        (Some m, Some a) \<Rightarrow>
          if truthy m \<and> truthy a then
            andThen (js_String m) (\<lambda>mode.
            andThen (js_String a) (\<lambda>axis.
            andThen (js_Number_opt (js_get data ''axis_multiplier'')) (\<lambda>k.
            Inr (Some (axis_parameters mode axis k)))))
          else Inr None
      | _ \<Rightarrow> Inr None)"

lemma size_js_get: "js_get d k = Some v \<Longrightarrow> size v < size d"
proof (cases d)
  case (JObject ps)
  assume "js_get d k = Some v"
  with JObject have "(k, v) \<in> set ps" by (auto simp: js_get_def dest: map_of_SomeD)
  then have "size v < Suc (size_list (size_prod (\<lambda>_. 0) size) ps)"
    by (induction ps) auto
  with JObject show ?thesis by simp
qed (auto simp: js_get_def)

lemma size_js_get_array:
  assumes "js_get d k = Some (JArray xs)" and "x \<in> set xs"
  shows "Suc (size x) < size d"
proof -
  from assms(2) have "size x < size (JArray xs)"
    by (induction xs) auto
  with size_js_get [OF assms(1)] show ?thesis by simp
qed

function parseActionFromData :: "jsval option \<Rightarrow> js_error + button_action option"
  and parseGestureFromData :: "jsval \<Rightarrow> js_error + gesture_mapping option"
where
  "parseActionFromData None = Inr None"
| "parseActionFromData (Some data) =
     (if \<not> truthy data \<or> \<not> truthy_opt (js_get data ''type'') then Inr None
      else
        andThen (js_String_opt (js_get data ''type'')) (\<lambda>originalType.
        (let actionType = action_type_alias (toLowerCase originalType);
             kind = toLowerCase actionType
         in if kind = ''keypress'' \<or> kind = ''key'' then
              (case js_get data ''keys'' of
                 None \<Rightarrow> Inr (Some (ButtonAction actionType None))
               | Some ks \<Rightarrow>
                   if truthy ks then
                     andThen (read_keys ks) (\<lambda>keys.
                     Inr (Some (ButtonAction actionType (Some (keys_parameters keys)))))
                   else Inr (Some (ButtonAction actionType None)))
            else if kind = ''gestures'' \<or> kind = ''gesture'' then
              (case js_get data ''gestures'' of
                 Some (JArray gs) \<Rightarrow>
                   andThen (mapE parseGestureFromData gs) (\<lambda>rs.
                   Inr (Some (ButtonAction actionType
                     (Some (gestures_parameters (List.map_filter id rs))))))
               | _ \<Rightarrow> Inr (Some (ButtonAction actionType None)))
            else if kind = ''axis'' then
              andThen (read_axis data) (\<lambda>ps. Inr (Some (ButtonAction actionType ps)))
            else if kind = ''changedpi'' then
              andThen (js_Number_opt (js_get data ''sensor'')) (\<lambda>n.
              Inr (Some (ButtonAction actionType (map_option sensor_parameters n))))
            else Inr (Some (ButtonAction actionType None)))))"
| "parseGestureFromData data =
     (if \<not> truthy_opt (js_get data ''direction'') \<or> \<not> truthy_opt (js_get data ''mode'') then Inr None
      else
        andThen (parseActionFromData (js_get data ''action'')) (\<lambda>action.
        (case action of
           None \<Rightarrow> Inr None
         | Some a \<Rightarrow>
             andThen (js_String_opt (js_get data ''direction'')) (\<lambda>direction.
             andThen (js_String_opt (js_get data ''mode'')) (\<lambda>mode.
             andThen (js_Number_opt (js_get data ''threshold'')) (\<lambda>th.
             andThen (js_Number_opt (js_get data ''interval'')) (\<lambda>iv.
             Inr (Some (GestureMapping direction mode a th iv)))))))))"
  by pat_completeness auto
termination
proof (relation "measure (\<lambda>x. case x of
          Inl None \<Rightarrow> 0
        | Inl (Some v) \<Rightarrow> 2 * size v + 1
        | Inr v \<Rightarrow> 2 * size v + 2)")
  show "wf (measure (\<lambda>x. case x of
          Inl None \<Rightarrow> 0
        | Inl (Some v) \<Rightarrow> 2 * size v + 1
        | Inr v \<Rightarrow> 2 * size v + 2))" by simp
qed (auto dest: size_js_get size_js_get_array split: option.splits)

function normalizeActionData :: "jsval option \<Rightarrow> js_error + button_action" where
  "normalizeActionData None = Inl (TypeError (''Cannot read properties of undefined (reading '' @ [CHR 0x27] @ ''type'' @ [CHR 0x27] @ '')''))"
| "normalizeActionData (Some actionData) =
     andThen (js_String_opt (js_get actionData ''type'')) (\<lambda>originalType.
     (let actionType = action_type_alias (toLowerCase originalType)
      in if actionType = ''key'' then
           (case js_get actionData ''keys'' of
              None \<Rightarrow> Inr (ButtonAction actionType None)
            | Some ks \<Rightarrow>
                if truthy ks then
                  andThen (read_keys ks) (\<lambda>keys.
                  Inr (ButtonAction actionType (Some (keys_parameters keys))))
                else Inr (ButtonAction actionType None))
         else if actionType = ''gesture'' then
           (case js_get actionData ''gestures'' of
              Some (JArray gs) \<Rightarrow>
                andThen (mapE (\<lambda>gestureData.
                    andThen (js_String_opt (js_get gestureData ''direction'')) (\<lambda>direction.
                    andThen (js_String_opt (js_get gestureData ''mode'')) (\<lambda>mode.
                    andThen (normalizeActionData (js_get gestureData ''action'')) (\<lambda>action.
                    Inr (GestureMapping direction mode action None None))))) gs) (\<lambda>gestures.
                Inr (ButtonAction actionType (Some (gestures_parameters gestures))))
            | _ \<Rightarrow> Inr (ButtonAction actionType None))
         else if actionType = ''axis'' then
           andThen (read_axis actionData) (\<lambda>ps. Inr (ButtonAction actionType ps))
         else if actionType = ''changeDPI'' then
           andThen (js_Number_opt (js_get actionData ''sensor'')) (\<lambda>n.
           Inr (ButtonAction actionType (map_option sensor_parameters n)))
         else Inr (ButtonAction actionType None)))"
  by pat_completeness auto
termination
proof (relation "measure (\<lambda>x. case x of None \<Rightarrow> 0 | Some v \<Rightarrow> Suc (size v))")
  show "wf (measure (\<lambda>x. case x of None \<Rightarrow> 0 | Some v \<Rightarrow> Suc (size v)))" by simp
next
  fix actionData :: jsval and originalType actionType and x2 :: jsval and gs gestureData direction mode
  assume a: "js_get actionData ''gestures'' = Some x2" "x2 = JArray gs" "gestureData \<in> set gs"
  then have "Suc (size gestureData) < size actionData"
    using size_js_get_array [of actionData "''gestures''" gs gestureData] by simp
  moreover have "(case js_get gestureData ''action'' of None \<Rightarrow> 0 | Some v \<Rightarrow> Suc (size v))
      \<le> Suc (size gestureData)"
    by (auto split: option.splits dest: size_js_get)
  ultimately show "(js_get gestureData ''action'', Some actionData)
      \<in> measure (\<lambda>x. case x of None \<Rightarrow> 0 | Some v \<Rightarrow> Suc (size v))"
    by simp
qed

definition scroll_direction :: "jsval option \<Rightarrow> js_error + button_action option" where
  \<comment> \<open>the body of the loop over \<open>up\<close>, \<open>down\<close>, \<open>left\<close>, \<open>right\<close> in
      \<open>parseScrollWheelFromData\<close>, for \<open>data[direction]\<close>: the action stored for the direction,
      \<open>None\<close> when nothing is stored\<close>
  "scroll_direction d =
     (case d of
        None \<Rightarrow> Inr None
      | Some directionData \<Rightarrow>
          if \<not> truthy directionData then Inr None
          else if \<not> truthy_opt (js_get directionData ''type'')
                  \<and> truthy_opt (js_get directionData ''mode'')
                  \<and> truthy_opt (js_get directionData ''axis'') then
            andThen (read_axis directionData) (\<lambda>ps. Inr (Some (ButtonAction ''cycleHiRes'' ps)))
          else parseActionFromData (Some directionData))"

definition parseScrollWheelFromData :: "jsval \<Rightarrow> js_error + scroll_wheel_settings" where
  "parseScrollWheelFromData data =
     andThen (scroll_direction (js_get data ''up'')) (\<lambda>u.
     andThen (scroll_direction (js_get data ''down'')) (\<lambda>d.
     andThen (scroll_direction (js_get data ''left'')) (\<lambda>l.
     andThen (scroll_direction (js_get data ''right'')) (\<lambda>r.
     Inr \<lparr>hires = map_option truthy (js_get data ''hires''),
          invert = map_option truthy (js_get data ''invert''),
          target = map_option truthy (js_get data ''target''),
          up = u, down = d, left = l, right = r\<rparr>))))"

definition dpi_sensor_of :: "jsval \<Rightarrow> js_error + dpi_sensor" where
  "dpi_sensor_of v =
     (case (js_get v ''dpi'', js_get v ''default'') of
        (Some (JNumber n), None) \<Rightarrow> Inr \<lparr>dpi = n, default = None\<rparr>
      | (Some (JNumber n), Some (JBoolean b)) \<Rightarrow> Inr \<lparr>dpi = n, default = Some b\<rparr>
      | _ \<Rightarrow> Inl (Unmodelled ''a dpi sensor that is no DPISensor''))"

definition dpi_settings_of :: "jsval \<Rightarrow> js_error + dpi_settings" where
  \<comment> \<open>\<open>device.dpi = data.dpi\<close> stores the tree value as it is. The data model holds it when
      it has the shape of \<open>DPISettings\<close>; any other value is outside the data model.\<close>
  "dpi_settings_of v =
     (case js_get v ''sensors'' of
        Some (JArray xs) \<Rightarrow> andThen (mapE dpi_sensor_of xs) (\<lambda>ss. Inr \<lparr>sensors = ss\<rparr>)
      | _ \<Rightarrow> Inl (Unmodelled ''dpi.sensors that is no array''))"

definition parse_dpi :: "jsval option \<Rightarrow> js_error + dpi_settings option" where
  \<comment> \<open>the \<open>if (data.dpi !== undefined)\<close> block of \<open>parseDeviceFromData\<close>\<close>
  "parse_dpi d =
     (case d of
        None \<Rightarrow> Inr None
      | Some (JNumber n) \<Rightarrow> Inr (Some \<lparr>sensors = [\<lparr>dpi = n, default = Some True\<rparr>]\<rparr>)
      | Some v \<Rightarrow>
          if truthy v \<and> truthy_opt (js_get v ''sensors'')
          then andThen (dpi_settings_of v) (\<lambda>s. Inr (Some s))
          else Inr None)"

definition parse_smartshift :: "jsval option \<Rightarrow> js_error + smartshift_settings option" where
  \<comment> \<open>the \<open>if (data.smartshift)\<close> block\<close>
  "parse_smartshift d =
     (case d of
        None \<Rightarrow> Inr None
      | Some v \<Rightarrow>
          if \<not> truthy v then Inr None
          else
            (case js_get v ''threshold'' of
               None \<Rightarrow> Inr (Some \<lparr>on = truthy_opt (js_get v ''on''), threshold = Num 20\<rparr>)
             | Some t \<Rightarrow>
                 if truthy t then
                   andThen (js_Number t) (\<lambda>n.
                   Inr (Some \<lparr>on = truthy_opt (js_get v ''on''), threshold = n\<rparr>))
                 else Inr (Some \<lparr>on = truthy_opt (js_get v ''on''), threshold = Num 20\<rparr>)))"

definition first_truthy :: "jsval option list \<Rightarrow> jsval option" where
  \<comment> \<open>\<open>a || b || c\<close> when one of them is truthy\<close>
  "first_truthy xs = (case filter truthy_opt xs of [] \<Rightarrow> None | x # _ \<Rightarrow> x)"

definition parse_button :: "jsval \<Rightarrow> js_error + button_mapping option" where
  \<comment> \<open>the function mapped over \<open>data.buttons\<close>\<close>
  "parse_button buttonData =
     (if \<not> truthy_opt (js_get buttonData ''cid'') \<or> \<not> truthy_opt (js_get buttonData ''action'')
      then Inr None
      else
        andThen (normalizeActionData (js_get buttonData ''action'')) (\<lambda>normalizedAction.
        andThen (js_String_opt (js_get buttonData ''cid'')) (\<lambda>c.
        Inr (Some \<lparr>cid = normalizeHexValue c, action = normalizedAction\<rparr>))))"

definition hex_member :: "jsval option \<Rightarrow> js_error + string" where
  \<comment> \<open>\<open>data.vid ? normalizeHexValue(String(data.vid)) : ''\<close>\<close>
  "hex_member x =
     (case x of
        None \<Rightarrow> Inr []
      | Some v \<Rightarrow> if truthy v then andThen (js_String v) (\<lambda>s. Inr (normalizeHexValue s)) else Inr [])"

definition parseDeviceFromData :: "jsval \<Rightarrow> js_error + device option" where
  "parseDeviceFromData data =
     (if \<not> truthy_opt (js_get data ''name'') then Inr None
      else
        andThen (js_String_opt (js_get data ''name'')) (\<lambda>n.
        andThen (hex_member (js_get data ''vid'')) (\<lambda>v.
        andThen (hex_member (js_get data ''pid'')) (\<lambda>p.
        andThen (js_Number_opt (js_get data ''timeout'')) (\<lambda>t.
        andThen (parse_dpi (js_get data ''dpi'')) (\<lambda>dp.
        andThen (parse_smartshift (js_get data ''smartshift'')) (\<lambda>ss.
        andThen (case first_truthy [js_get data ''hiresscroll'', js_get data ''scrollwheel'',
                                    js_get data ''scroll_wheel''] of
                   None \<Rightarrow> Inr None
                 | Some scrollData \<Rightarrow>
                     andThen (parseScrollWheelFromData scrollData) (\<lambda>sw. Inr (Some sw))) (\<lambda>sw.
        andThen (case js_get data ''buttons'' of
                   Some (JArray bs) \<Rightarrow>
                     andThen (mapE parse_button bs) (\<lambda>rs. Inr (Some (List.map_filter id rs)))
                 | _ \<Rightarrow> Inr None) (\<lambda>bs.
        andThen (case js_get data ''gestures'' of
                   Some (JArray gs) \<Rightarrow>
                     andThen (mapE parseGestureFromData gs) (\<lambda>rs. Inr (Some (List.map_filter id rs)))
                 | _ \<Rightarrow> Inr None) (\<lambda>gs.
        Inr (Some \<lparr>name = n, vid = Some v, pid = Some p, timeout = t, smartshift = ss,
                   device_dpi = dp, buttons = bs, gestures = gs, scrollWheel = sw\<rparr>)))))))))))"

definition parseDevicesFromData :: "jsval \<Rightarrow> js_error + device list" where
  \<comment> \<open>\<open>for (const deviceData of devicesData)\<close>: an array gives its elements, a string its
      characters (none of which is a device), anything else is not iterable\<close>
  "parseDevicesFromData devicesData =
     (case devicesData of
        JArray xs \<Rightarrow> andThen (mapE parseDeviceFromData xs) (\<lambda>rs. Inr (List.map_filter id rs))
      | JString s \<Rightarrow>
          andThen (mapE parseDeviceFromData (map (\<lambda>c. JString [c]) s)) (\<lambda>rs.
          Inr (List.map_filter id rs))
      | _ \<Rightarrow> Inl (TypeError ''devicesData is not iterable''))"

definition rethrow :: "js_error \<Rightarrow> js_error" where
  \<comment> \<open>the \<open>catch\<close> clause of \<open>parseConfigFile\<close>\<close>
  "rethrow e =
     (case e of
        ConfigParseError m l c \<Rightarrow> ConfigParseError m l c
      | Error m \<Rightarrow> ConfigParseError (''Failed to parse configuration file: '' @ m) None None
      | TypeError m \<Rightarrow> ConfigParseError (''Failed to parse configuration file: '' @ m) None None
      | Unmodelled m \<Rightarrow> Unmodelled m
      | OutOfFuel \<Rightarrow> OutOfFuel)"

definition parseConfigFile :: "string \<Rightarrow> string option \<Rightarrow> date \<Rightarrow> date \<Rightarrow> js_error + configuration" where
  \<comment> \<open>\<open>parseConfigFile(content, filename)\<close>; the two readings of the clock by \<open>new Date()\<close>
      are the arguments \<open>now\<close> and \<open>now'\<close>\<close>
  "parseConfigFile content fname now now' =
     (case andThen (parseLibconfig content) (\<lambda>parsed.
             (let devicesData =
                    (case js_get parsed ''devices'' of
                       None \<Rightarrow> JArray []
                     | Some v \<Rightarrow> if truthy v then v else JArray [])
              in andThen (parseDevicesFromData devicesData) (\<lambda>ds.
                 Inr \<lparr>devices = ds,
                      metadata = \<lparr>version = ''1.0.0'', created = now, modified = now',
                                  filename = fname, originalContent = Some content\<rparr>\<rparr>)))
      of Inl e \<Rightarrow> Inl (rethrow e)
       | Inr config \<Rightarrow> Inr config)"

definition validateConfigSyntax :: "string \<Rightarrow> date \<Rightarrow> date \<Rightarrow> js_error + bool \<times> string list" where
  \<comment> \<open>returns \<open>{isValid, errors}\<close>; \<open>parseConfigFile\<close> throws nothing but \<open>ConfigParseError\<close>\<close>
  "validateConfigSyntax content now now' =
     (case parseConfigFile content None now now' of
        Inr config \<Rightarrow> Inr (True, [])
      | Inl (ConfigParseError m l c) \<Rightarrow> Inr (False, [m])
      | Inl e \<Rightarrow> Inl e)"

section \<open>Generator (configParser.ts)\<close>

definition quoted :: "string \<Rightarrow> string" where
  \<comment> \<open>\<open>`"${s}"`\<close>\<close>
  "quoted s = [CHR 0x22] @ s @ [CHR 0x22]"

definition show_bool :: "bool \<Rightarrow> string" where
  "show_bool b = (if b then ''true'' else ''false'')"

definition toUpperFirst :: "string \<Rightarrow> string" where
  \<comment> \<open>\<open>s.charAt(0).toUpperCase() + s.slice(1)\<close>. The sharp s becomes \<open>SS\<close>. The two code
      units below 256 whose upper case is above 255 (0xB5 and 0xFF) are left as they are:
      their upper case is no character of this model.\<close>
  "toUpperFirst s =
     (case s of
        [] \<Rightarrow> []
      | c # cs \<Rightarrow>
          (let n = (of_char c :: nat)
           in if (97 \<le> n \<and> n \<le> 122) \<or> (224 \<le> n \<and> n \<le> 254 \<and> n \<noteq> 247) then char_of (n - 32) # cs
              else if n = 223 then ''SS'' @ cs
              else c # cs))"

definition action_type_name :: "string \<Rightarrow> string" where
  \<comment> \<open>the first \<open>switch\<close> of \<open>generateActionConfig\<close>\<close>
  "action_type_name t =
     (let l = toLowerCase t
      in if l = ''key'' \<or> l = ''keypress'' then ''Keypress''
         else if l = ''gesture'' \<or> l = ''gestures'' then ''Gestures''
         else if l = ''changedpi'' then ''ChangeDPI''
         else if l = ''axis'' then ''Axis''
         else if l = ''cyclehires'' then ''cycleHiRes''
         else t)"

definition axis_lines :: "string \<Rightarrow> string \<Rightarrow> action_parameters option \<Rightarrow> string list" where
  \<comment> \<open>the cases \<open>'Axis'\<close> and \<open>'cycleHiRes'\<close>, which have the same body: with a non-empty
      \<open>axis\<close> the type line is replaced by the mode and axis lines\<close>
  "axis_lines indent type_line ps =
     (case ps of
        None \<Rightarrow> [type_line]
      | Some p \<Rightarrow>
          (case p_axis p of
             None \<Rightarrow> [type_line]
           | Some a \<Rightarrow>
               if a = [] then [type_line]
               else [indent @ ''mode: '' @ quoted ''Axis'' @ '';'',
                     indent @ ''axis: '' @ quoted a @ '';'']
                    @ (case p_axis_multiplier p of
                         None \<Rightarrow> []
                       | Some k \<Rightarrow> [indent @ ''axis_multiplier: '' @ numToString k @ '';''])))"

lemma size_enumerate_gesture:
  "(i, g) \<in> set (enumerate n gs) \<Longrightarrow> size (g_action g) < Suc (size_list size gs)"
proof (induction gs arbitrary: n)
  case Nil
  then show ?case by simp
next
  case (Cons a gs)
  show ?case
  proof (cases "(i, g) = (n, a)")
    case True
    then show ?thesis by (cases a) simp
  next
    case False
    with Cons.prems have "(i, g) \<in> set (enumerate (Suc n) gs)" by auto
    from Cons.IH [OF this] show ?thesis by simp
  qed
qed

function generateActionConfig :: "button_action \<Rightarrow> string \<Rightarrow> string list" where
  "generateActionConfig (ButtonAction t ps) indent =
     (let actionType = action_type_name t;
          type_line = indent @ ''type: '' @ quoted actionType @ '';''
      in if actionType = ''Keypress'' then
           (case ps of
              Some (ActionParameters (Some ks) sn gs m a k) \<Rightarrow>
                [type_line, indent @ ''keys: ['' @ join '', '' (map quoted ks) @ ''];'']
            | _ \<Rightarrow> [type_line])
         else if actionType = ''Gestures'' then
           (case ps of
              Some (ActionParameters ks sn (Some gs) m a k) \<Rightarrow>
                [type_line, indent @ ''gestures: ('']
                @ concat (map (\<lambda>(index, gesture).
                    [indent @ ''  {'',
                     indent @ ''    direction: '' @ quoted (toUpperFirst (g_direction gesture)) @ '';'',
                     indent @ ''    mode: '' @ quoted (g_mode gesture) @ '';'',
                     indent @ ''    action ='',
                     indent @ ''    {'']
                    @ generateActionConfig (g_action gesture) (indent @ ''      '')
                    @ [indent @ ''    };'',
                       indent @ ''  }'' @ (if int index < int (length gs) - 1 then '','' else [])])
                  (enumerate 0 gs))
                @ [indent @ '');'']
            | _ \<Rightarrow> [type_line])
         else if actionType = ''Axis'' \<or> actionType = ''cycleHiRes'' then axis_lines indent type_line ps
         else [type_line])"
  by pat_completeness auto
termination
proof (relation "measure (\<lambda>(a, indent). size a)")
  show "wf (measure (\<lambda>(a, indent). size a))" by simp
qed (auto dest: size_enumerate_gesture)

definition getButtonComment :: "string \<Rightarrow> string" where
  \<comment> \<open>\<open>buttonComments[cid.toLowerCase()] || 'Button'\<close>. The table is a plain object, so the
      two lower-case names it inherits answer as well, printed by the template literal.\<close>
  "getButtonComment c =
     (let k = toLowerCase c
      in if k = ''0xc3'' then ''Thumb button''
         else if k = ''0xc4'' then ''Forward button''
         else if k = ''0xc5'' then ''Back button''
         else if k = ''0x53'' then ''Scroll wheel button''
         else if k = ''0x56'' then ''Gesture button''
         else if k = ''constructor'' then ''function Object() { [native code] }''
         else if k = ''__proto__'' then ''[object Object]''
         else ''Button'')"

definition direction_lines :: "string \<Rightarrow> string \<Rightarrow> button_action option \<Rightarrow> string list" where
  \<comment> \<open>the body of \<open>directions.forEach\<close> in \<open>generateDeviceConfig\<close>\<close>
  "direction_lines indent direction a =
     (case a of
        None \<Rightarrow> []
      | Some act \<Rightarrow>
          [indent @ ''  '' @ direction @ '': {'']
          @ generateActionConfig act (indent @ ''      '')
          @ [indent @ ''  },''])"

definition generateDeviceConfig :: "device \<Rightarrow> string \<Rightarrow> string list" where
  "generateDeviceConfig dev indent =
     [indent @ ''// For the '' @ name dev,
      indent @ ''name: '' @ quoted (name dev) @ '';'']
     @ (case vid dev of None \<Rightarrow> [] | Some v \<Rightarrow> if v = [] then [] else [indent @ ''vid: '' @ v @ '';''])
     @ (case pid dev of None \<Rightarrow> [] | Some p \<Rightarrow> if p = [] then [] else [indent @ ''pid: '' @ p @ '';''])
     @ (case timeout dev of None \<Rightarrow> [] | Some t \<Rightarrow> [indent @ ''timeout: '' @ numToString t @ '';''])
     @ (case smartshift dev of
          None \<Rightarrow> []
        | Some ss \<Rightarrow>
            [indent @ ''smartshift:'',
             indent @ ''{'',
             indent @ ''  on: '' @ show_bool (on ss) @ '';'',
             indent @ ''  threshold: '' @ numToString (threshold ss) @ '';'',
             indent @ ''};''])
     @ (case scrollWheel dev of
          None \<Rightarrow> []
        | Some sw \<Rightarrow>
            [indent @ ''hiresscroll:'',
             indent @ ''{'']
            @ (case hires sw of None \<Rightarrow> [] | Some b \<Rightarrow> [indent @ ''  hires: '' @ show_bool b @ '';''])
            @ (case invert sw of None \<Rightarrow> [] | Some b \<Rightarrow> [indent @ ''  invert: '' @ show_bool b @ '';''])
            @ (case target sw of None \<Rightarrow> [] | Some b \<Rightarrow> [indent @ ''  target: '' @ show_bool b @ '';''])
            @ direction_lines indent ''up'' (up sw)
            @ direction_lines indent ''down'' (down sw)
            @ direction_lines indent ''left'' (left sw)
            @ direction_lines indent ''right'' (right sw)
            @ [indent @ ''};''])
     @ (case device_dpi dev of
          None \<Rightarrow> []
        | Some d \<Rightarrow>
            (case sensors d of
               [] \<Rightarrow> []
             | s0 # ss \<Rightarrow>
                 (let defaultSensor = (case find (\<lambda>s. default s = Some True) (s0 # ss) of
                                         None \<Rightarrow> s0 | Some s \<Rightarrow> s)
                  in [indent @ ''dpi: '' @ numToString (dpi defaultSensor) @ '';''])))
     @ (case buttons dev of
          None \<Rightarrow> []
        | Some bs \<Rightarrow>
            if bs = [] then []
            else
              [indent @ ''buttons: ('']
              @ concat (map (\<lambda>(index, button).
                  [indent @ ''  {'',
                   indent @ ''    # '' @ getButtonComment (cid button),
                   indent @ ''    cid: '' @ cid button @ '';'',
                   indent @ ''    action ='',
                   indent @ ''    {'']
                  @ generateActionConfig (action button) (indent @ ''      '')
                  @ [indent @ ''    };'',
                     indent @ ''  }'' @ (if int index < int (length bs) - 1 then '','' else [])])
                (enumerate 0 bs))
              @ [indent @ '');''])"

definition generateConfigFile :: "configuration \<Rightarrow> string" where
  "generateConfigFile config =
     join [CHR 0x0A]
       ([''// Generated by logiops-gui'',
         ''// Created: '' @ created (metadata config),
         ''// Modified: '' @ modified (metadata config),
         []]
        @ (if devices config = [] then []
           else
             [''devices: ('', ''{'']
             @ concat (map (\<lambda>(index, dev).
                 generateDeviceConfig dev ''  ''
                 @ (if int index < int (length (devices config)) - 1 then [''},'', ''{''] else []))
               (enumerate 0 (devices config)))
             @ [''});'']))"

section \<open>Validator (utils/validation.ts)\<close>

text \<open>
  The validators take values of the interfaces above. Their tests for a value that is not of
  its declared type (\<open>!config.metadata\<close>, \<open>!Array.isArray(config.devices)\<close>,
  \<open>!Array.isArray(dpi.sensors)\<close>, \<open>typeof sensor.dpi !== 'number'\<close>, \<open>!button.action\<close>,
  \<open>!Array.isArray(keys)\<close>, \<open>typeof sensor !== 'number'\<close>, \<open>typeof threshold !== 'number'\<close>,
  \<open>!gesture.action\<close>, \<open>typeof hires !== 'boolean'\<close> and the like) never hold on such a value
  and have no branch here. A string member is falsy when it is empty, an optional member
  when it is absent.
\<close>

datatype severity = error_severity | warning_severity

record validation_error =
  path :: string
  message :: string
  severity :: severity
  field :: "string option"

record validation_result =
  isValid :: bool
  errors :: "validation_error list"
  warnings :: "validation_error list"

definition error_at :: "string \<Rightarrow> string \<Rightarrow> string option \<Rightarrow> validation_error" where
  "error_at p m f = \<lparr>path = p, message = m, severity = error_severity, field = f\<rparr>"

definition warning_at :: "string \<Rightarrow> string \<Rightarrow> string option \<Rightarrow> validation_error" where
  "warning_at p m f = \<lparr>path = p, message = m, severity = warning_severity, field = f\<rparr>"

definition result_of :: "validation_error list \<Rightarrow> validation_error list \<Rightarrow> validation_result" where
  \<comment> \<open>the \<open>return {isValid: errors.length === 0, errors, warnings}\<close> that ends every validator\<close>
  "result_of es ws = \<lparr>isValid = (length es = 0), errors = es, warnings = ws\<rparr>"

definition DPI_MIN :: nat where "DPI_MIN = 50"
definition DPI_MAX :: nat where "DPI_MAX = 25600"
definition GESTURE_THRESHOLD_MIN :: nat where "GESTURE_THRESHOLD_MIN = 1"
definition GESTURE_THRESHOLD_MAX :: nat where "GESTURE_THRESHOLD_MAX = 100"
definition GESTURE_INTERVAL_MIN :: nat where "GESTURE_INTERVAL_MIN = 1"
definition GESTURE_INTERVAL_MAX :: nat where "GESTURE_INTERVAL_MAX = 1000"

definition BUTTON_CID_PATTERN :: "string \<Rightarrow> bool" where
  \<comment> \<open>\<open>/^0x[0-9a-fA-F]{2}$/.test(s)\<close>\<close>
  "BUTTON_CID_PATTERN s = (startsWith s ''0x'' \<and> length s = 4 \<and> list_all is_hex (drop 2 s))"

definition DEVICE_ID_PATTERN :: "string \<Rightarrow> bool" where
  \<comment> \<open>\<open>/^0x[0-9a-fA-F]{4}$/.test(s)\<close>\<close>
  "DEVICE_ID_PATTERN s = (startsWith s ''0x'' \<and> length s = 6 \<and> list_all is_hex (drop 2 s))"

definition COMMON_LOGITECH_DEVICES :: "(string \<times> string \<times> string) list" where
  \<comment> \<open>name, vid and pid of the table; its other members are not read by the validators\<close>
  "COMMON_LOGITECH_DEVICES =
     [(''MX Master 3S'', ''0x046d'', ''0x4082''),
      (''MX Master 2S'', ''0x046d'', ''0x4069''),
      (''G502 HERO'', ''0x046d'', ''0xc08b'')]"

definition num_less :: "jsnum \<Rightarrow> jsnum \<Rightarrow> bool" where
  \<comment> \<open>\<open>a < b\<close> on numbers: false when either is \<open>NaN\<close>\<close>
  "num_less a b =
     (case (a, b) of
        (Num x, Num y) \<Rightarrow> x < y
      | (Num x, PosInf) \<Rightarrow> True
      | (NegInf, Num y) \<Rightarrow> True
      | (NegInf, PosInf) \<Rightarrow> True
      | _ \<Rightarrow> False)"

definition rem_is_zero :: "jsnum \<Rightarrow> nat \<Rightarrow> bool" where
  \<comment> \<open>\<open>a % m === 0\<close>: \<open>a\<close> is a whole multiple of \<open>m\<close>; the remainder of an infinity or
      of \<open>NaN\<close> is \<open>NaN\<close>\<close>
  "rem_is_zero a m = (case a of Num x \<Rightarrow> of_int \<lfloor>x / of_nat m\<rfloor> = x / of_nat m | _ \<Rightarrow> False)"

definition show_member :: "string option \<Rightarrow> string" where
  \<comment> \<open>an optional string in a template literal\<close>
  "show_member x = (case x of None \<Rightarrow> ''undefined'' | Some s \<Rightarrow> s)"

definition falsy_member :: "string option \<Rightarrow> bool" where
  \<comment> \<open>\<open>!device.vid\<close>\<close>
  "falsy_member x = (case x of None \<Rightarrow> True | Some s \<Rightarrow> s = [])"

fun indexOf :: "'a list \<Rightarrow> 'a \<Rightarrow> int" where
  "indexOf [] x = - 1"
| "indexOf (y # ys) x = (if y = x then 0 else (let i = indexOf ys x in if i < 0 then - 1 else i + 1))"

definition validateDPISensor :: "dpi_sensor \<Rightarrow> string \<Rightarrow> validation_result" where
  "validateDPISensor sensor basePath =
     (if num_less (dpi sensor) (Num (of_nat DPI_MIN)) \<or> num_less (Num (of_nat DPI_MAX)) (dpi sensor) then
        result_of
          [error_at (basePath @ ''.dpi'')
             (''DPI must be between '' @ show_nat DPI_MIN @ '' and '' @ show_nat DPI_MAX) (Some ''dpi'')]
          []
      else if \<not> rem_is_zero (dpi sensor) 50 then
        result_of []
          [warning_at (basePath @ ''.dpi'') ''DPI values are typically multiples of 50'' (Some ''dpi'')]
      else result_of [] [])"

definition defaultCount :: "dpi_sensor list \<Rightarrow> nat" where
  \<comment> \<open>the counter of the loop in \<open>validateDPISettings\<close>: the sensors with a truthy \<open>default\<close>\<close>
  "defaultCount ss = length (filter (\<lambda>s. default s = Some True) ss)"

definition validateDPISettings :: "dpi_settings \<Rightarrow> string \<Rightarrow> validation_result" where
  "validateDPISettings d basePath =
     (if length (sensors d) = 0 then
        result_of [error_at (basePath @ ''.sensors'') ''At least one DPI sensor must be configured'' None] []
      else
        (let rs = map (\<lambda>(index, sensor).
                    validateDPISensor sensor (basePath @ ''.sensors['' @ show_nat index @ '']''))
                  (enumerate 0 (sensors d));
             n = defaultCount (sensors d)
         in result_of
              (concat (map errors rs)
               @ (if n > 1 then
                    [error_at (basePath @ ''.sensors'') ''Only one DPI sensor can be marked as default'' None]
                  else []))
              (concat (map warnings rs)
               @ (if n = 0 then
                    [warning_at (basePath @ ''.sensors'') ''No default DPI sensor specified'' None]
                  else []))))"

definition validTypes :: "string list" where
  "validTypes = [''key'', ''gesture'', ''changeDPI'', ''toggleSmartShift'', ''cycleHiRes'', ''toggleHiRes'']"

definition validateButtonAction :: "button_action \<Rightarrow> string \<Rightarrow> validation_result" where
  "validateButtonAction act basePath =
     result_of
       ((if a_type act = [] then
           [error_at (basePath @ ''.type'') ''Action type is required'' (Some ''type'')]
         else if a_type act \<notin> set validTypes then
           [error_at (basePath @ ''.type'')
              (''Action type must be one of: '' @ join '', '' validTypes) (Some ''type'')]
         else [])
        @ (case a_parameters act of
             None \<Rightarrow> []
           | Some ps \<Rightarrow>
               (case p_keys ps of
                  None \<Rightarrow> []
                | Some ks \<Rightarrow>
                    if a_type act = ''key'' \<and> length ks = 0 then
                      [error_at (basePath @ ''.parameters.keys'') ''Key action requires at least one key'' None]
                    else [])
               @ (case p_sensor ps of
                    None \<Rightarrow> []
                  | Some n \<Rightarrow>
                      if a_type act = ''changeDPI'' \<and> num_less n (Num 0) then
                        [error_at (basePath @ ''.parameters.sensor'')
                           ''Sensor index must be a non-negative number'' None]
                      else [])))
       []"

definition validDirections :: "string list" where
  "validDirections = [''up'', ''down'', ''left'', ''right'', ''none'']"

definition validModes :: "string list" where
  "validModes = [''OnRelease'', ''OnFewPixels'', ''OnInterval'']"

definition validateGestureMapping :: "gesture_mapping \<Rightarrow> string \<Rightarrow> validation_result" where
  "validateGestureMapping gesture basePath =
     (let actionResult = validateButtonAction (g_action gesture) (basePath @ ''.action'')
      in result_of
           ((if g_direction gesture = [] then
               [error_at (basePath @ ''.direction'') ''Gesture direction is required'' (Some ''direction'')]
             else if g_direction gesture \<notin> set validDirections then
               [error_at (basePath @ ''.direction'')
                  (''Gesture direction must be one of: '' @ join '', '' validDirections) (Some ''direction'')]
             else [])
            @ (if g_mode gesture = [] then
                 [error_at (basePath @ ''.mode'') ''Gesture mode is required'' (Some ''mode'')]
               else if g_mode gesture \<notin> set validModes then
                 [error_at (basePath @ ''.mode'')
                    (''Gesture mode must be one of: '' @ join '', '' validModes) (Some ''mode'')]
               else [])
            @ (case g_threshold gesture of
                 None \<Rightarrow> []
               | Some t \<Rightarrow>
                   if g_mode gesture = ''OnFewPixels''
                      \<and> (num_less t (Num (of_nat GESTURE_THRESHOLD_MIN))
                           \<or> num_less (Num (of_nat GESTURE_THRESHOLD_MAX)) t) then
                     [error_at (basePath @ ''.threshold'')
                        (''Threshold must be between '' @ show_nat GESTURE_THRESHOLD_MIN @ '' and ''
                           @ show_nat GESTURE_THRESHOLD_MAX) (Some ''threshold'')]
                   else [])
            @ (case g_interval gesture of
                 None \<Rightarrow> []
               | Some t \<Rightarrow>
                   if g_mode gesture = ''OnInterval''
                      \<and> (num_less t (Num (of_nat GESTURE_INTERVAL_MIN))
                           \<or> num_less (Num (of_nat GESTURE_INTERVAL_MAX)) t) then
                     [error_at (basePath @ ''.interval'')
                        (''Interval must be between '' @ show_nat GESTURE_INTERVAL_MIN @ '' and ''
                           @ show_nat GESTURE_INTERVAL_MAX) (Some ''interval'')]
                   else [])
            @ errors actionResult)
           (warnings actionResult))"

definition validateButtonMapping :: "button_mapping \<Rightarrow> string \<Rightarrow> validation_result" where
  "validateButtonMapping button basePath =
     (let actionResult = validateButtonAction (action button) (basePath @ ''.action'')
      in result_of
           ((if cid button = [] then
               [error_at (basePath @ ''.cid'') ''Button control ID (cid) is required'' (Some ''cid'')]
             else if \<not> BUTTON_CID_PATTERN (cid button) then
               [error_at (basePath @ ''.cid'')
                  ''Button control ID must be in hexadecimal format (e.g., 0x52)'' (Some ''cid'')]
             else [])
            @ errors actionResult)
           (warnings actionResult))"

definition validateScrollWheelSettings :: "scroll_wheel_settings \<Rightarrow> string \<Rightarrow> validation_result" where
  "validateScrollWheelSettings sw basePath =
     (let rs = map (\<lambda>(direction, a).
                  case a of
                    None \<Rightarrow> result_of [] []
                  | Some act \<Rightarrow> validateButtonAction act (basePath @ ''.'' @ direction))
                [(''up'', up sw), (''down'', down sw), (''left'', left sw), (''right'', right sw)]
      in result_of (concat (map errors rs)) (concat (map warnings rs)))"

definition validateDevice :: "device \<Rightarrow> string \<Rightarrow> validation_result" where
  "validateDevice dev basePath =
     (let dpiResult = (case device_dpi dev of
                         None \<Rightarrow> result_of [] []
                       | Some d \<Rightarrow> validateDPISettings d (basePath @ ''.dpi''));
          buttonResults = (case buttons dev of
                             None \<Rightarrow> []
                           | Some bs \<Rightarrow>
                               map (\<lambda>(index, button).
                                   validateButtonMapping button
                                     (basePath @ ''.buttons['' @ show_nat index @ '']''))
                                 (enumerate 0 bs));
          gestureResults = (case gestures dev of
                              None \<Rightarrow> []
                            | Some gs \<Rightarrow>
                                map (\<lambda>(index, gesture).
                                    validateGestureMapping gesture
                                      (basePath @ ''.gestures['' @ show_nat index @ '']''))
                                  (enumerate 0 gs));
          scrollResult = (case scrollWheel dev of
                            None \<Rightarrow> result_of [] []
                          | Some sw \<Rightarrow> validateScrollWheelSettings sw (basePath @ ''.scrollWheel''))
      in result_of
           ((if name dev = [] \<or> trim (name dev) = [] then
               [error_at (basePath @ ''.name'') ''Device name is required'' (Some ''name'')]
             else [])
            @ (case vid dev of
                 None \<Rightarrow> [error_at (basePath @ ''.vid'') ''Vendor ID (vid) is required'' (Some ''vid'')]
               | Some v \<Rightarrow>
                   if v = [] then
                     [error_at (basePath @ ''.vid'') ''Vendor ID (vid) is required'' (Some ''vid'')]
                   else if \<not> DEVICE_ID_PATTERN v then
                     [error_at (basePath @ ''.vid'')
                        ''Vendor ID must be in hexadecimal format (e.g., 0x046d)'' (Some ''vid'')]
                   else [])
            @ (case pid dev of
                 None \<Rightarrow> [error_at (basePath @ ''.pid'') ''Product ID (pid) is required'' (Some ''pid'')]
               | Some p \<Rightarrow>
                   if p = [] then
                     [error_at (basePath @ ''.pid'') ''Product ID (pid) is required'' (Some ''pid'')]
                   else if \<not> DEVICE_ID_PATTERN p then
                     [error_at (basePath @ ''.pid'')
                        ''Product ID must be in hexadecimal format (e.g., 0x4082)'' (Some ''pid'')]
                   else [])
            @ errors dpiResult
            @ concat (map errors buttonResults)
            @ concat (map errors gestureResults)
            @ errors scrollResult)
           ((if \<not> falsy_member (vid dev) \<and> \<not> falsy_member (pid dev)
                \<and> find (\<lambda>(n, v, p). Some v = vid dev \<and> Some p = pid dev) COMMON_LOGITECH_DEVICES = None then
               [warning_at basePath
                  (''Device '' @ show_member (vid dev) @ '':'' @ show_member (pid dev)
                     @ '' is not in the known devices list'') None]
             else [])
            @ warnings dpiResult
            @ concat (map warnings buttonResults)
            @ concat (map warnings gestureResults)
            @ warnings scrollResult))"

definition deviceIds :: "device list \<Rightarrow> string list" where
  \<comment> \<open>\<open>config.devices.map(d => `${d.vid}:${d.pid}`)\<close>\<close>
  "deviceIds ds = map (\<lambda>d. show_member (vid d) @ '':'' @ show_member (pid d)) ds"

definition duplicates :: "string list \<Rightarrow> string list" where
  \<comment> \<open>\<open>deviceIds.filter((id, index) => deviceIds.indexOf(id) !== index)\<close>\<close>
  "duplicates ids = map snd (filter (\<lambda>(index, id). indexOf ids id \<noteq> int index) (enumerate 0 ids))"

definition validateConfiguration :: "configuration \<Rightarrow> validation_result" where
  "validateConfiguration config =
     (if length (devices config) = 0 then
        result_of [] [warning_at ''devices'' ''No devices configured'' None]
      else
        (let rs = map (\<lambda>(index, dev). validateDevice dev (''devices['' @ show_nat index @ '']''))
                    (enumerate 0 (devices config));
             dups = duplicates (deviceIds (devices config))
         in result_of
              (concat (map errors rs)
               @ (if length dups > 0 then
                    [error_at ''devices'' (''Duplicate devices found: '' @ join '', '' dups) None]
                  else []))
              (concat (map warnings rs))))"

section \<open>Predicates used in the claims\<close>

definition unrecognised :: "char \<Rightarrow> string \<Rightarrow> bool" where
  \<comment> \<open>the character \<open>c\<close>, followed by \<open>cs\<close> on its line, passes every test of the loop of
      \<open>tokenize\<close> and reaches its last statement: ''Unknown character, skip it''\<close>
  "unrecognised c cs =
     (\<not> is_space c \<and> \<not> (c = CHR ''/'' \<and> (case cs of [] \<Rightarrow> False | d # _ \<Rightarrow> d = CHR ''/''))
      \<and> c \<noteq> CHR ''#'' \<and> c \<noteq> CHR 0x22 \<and> \<not> is_digit c \<and> \<not> is_ident_start c
      \<and> c \<notin> set ''=:;,{}()'')"

definition no_token_char :: "char \<Rightarrow> bool" where
  \<comment> \<open>a character that neither starts nor is a token: no quote, digit, letter, underscore,
      operator or delimiter (white space, \<open>#\<close> and \<open>/\<close> are such characters)\<close>
  "no_token_char c = (c \<noteq> CHR 0x22 \<and> \<not> is_digit c \<and> \<not> is_ident_start c \<and> c \<notin> set ''=:;,{}()'')"

definition lower_hex_pattern :: "string \<Rightarrow> bool" where
  \<comment> \<open>the pattern \<open>^0x[0-9a-f]+$\<close>\<close>
  "lower_hex_pattern s = (startsWith s ''0x'' \<and> drop 2 s \<noteq> [] \<and> list_all is_lower_hex (drop 2 s))"

fun js_includes :: "string \<Rightarrow> string \<Rightarrow> bool" where
  \<comment> \<open>\<open>s.includes(p)\<close>: \<open>p\<close> occurs in \<open>s\<close>; what \<open>toThrow(p)\<close> and \<open>toContain(p)\<close> of the
      tests ask of a message\<close>
  "js_includes [] p = (p = [])"
| "js_includes (c # cs) p = (startsWith (c # cs) p \<or> js_includes cs p)"

definition text_of_lines :: "string list \<Rightarrow> string" where
  "text_of_lines ls = join [CHR 0x0A] ls"

definition plain_device :: "string \<Rightarrow> string \<Rightarrow> string \<Rightarrow> device" where
  \<comment> \<open>the device \<open>{name, vid, pid}\<close>\<close>
  "plain_device n v p =
     \<lparr>name = n, vid = Some v, pid = Some p, timeout = None, smartshift = None, device_dpi = None,
      buttons = None, gestures = None, scrollWheel = None\<rparr>"

definition parse_at :: "string \<Rightarrow> js_error + configuration" where
  \<comment> \<open>\<open>parseConfigFile(content)\<close> run at a fixed time\<close>
  "parse_at content =
     parseConfigFile content None ''2024-01-01T00:00:00.000Z'' ''2024-01-01T00:00:00.001Z''"

definition parsed_configuration :: "string \<Rightarrow> device list \<Rightarrow> configuration" where
  \<comment> \<open>the configuration \<open>parse_at\<close> returns for \<open>content\<close> when it finds the devices \<open>ds\<close>\<close>
  "parsed_configuration content ds =
     \<lparr>devices = ds,
      metadata = \<lparr>version = ''1.0.0'', created = ''2024-01-01T00:00:00.000Z'',
                  modified = ''2024-01-01T00:00:00.001Z'', filename = None,
                  originalContent = Some content\<rparr>\<rparr>"

definition missing_pid_test_text :: string where
  \<comment> \<open>the text of the test ''should throw error for missing required properties''\<close>
  "missing_pid_test_text = text_of_lines
     [[],
      ''devices: {'',
      ''  name: \"Test Device\";'',
      ''  vid: 0x1234;'',
      ''  // Missing pid'',
      ''};'',
      []]"

definition missing_pid_text :: string where
  \<comment> \<open>the same device in the array spelling\<close>
  "missing_pid_text = text_of_lines
     [[],
      ''devices: ({'',
      ''  name: \"Test Device\";'',
      ''  vid: 0x1234;'',
      ''  // Missing pid'',
      ''});'',
      []]"

definition two_devices_test_text :: string where
  \<comment> \<open>two \<open>devices\<close> entries in the single-object spelling, as in the test
      ''should parse multiple devices''\<close>
  "two_devices_test_text = text_of_lines
     [[],
      ''devices: {'',
      ''  name: \"MX Master 3\";'',
      ''  vid: 0x046d;'',
      ''  pid: 0x4082;'',
      ''};'',
      [],
      ''devices: {'',
      ''  name: \"G502 HERO\";'',
      ''  vid: 0x046d;'',
      ''  pid: 0xc08b;'',
      ''};'',
      []]"

definition two_devices_text :: string where
  \<comment> \<open>the same two entries in the array spelling\<close>
  "two_devices_text = text_of_lines
     [[],
      ''devices: ({'',
      ''  name: \"MX Master 3\";'',
      ''  vid: 0x046d;'',
      ''  pid: 0x4082;'',
      ''});'',
      [],
      ''devices: ({'',
      ''  name: \"G502 HERO\";'',
      ''  vid: 0x046d;'',
      ''  pid: 0xc08b;'',
      ''});'',
      []]"

definition unclosed_text :: string where
  \<comment> \<open>a \<open>buttons: {\<close> block and the block inside it, both without their closing brace\<close>
  "unclosed_text = text_of_lines
     [[],
      ''devices: ({'',
      ''  name: \"Test Device\";'',
      ''  vid: 0x1234;'',
      ''  pid: 0x5678;'',
      ''});'',
      ''buttons: {'',
      ''  button0: {'',
      ''    cid: 0x50;'',
      ''  // Missing closing brace'',
      []]"

definition unclosed_in_device_text :: string where
  \<comment> \<open>the unclosed \<open>buttons: {\<close> block inside a device of the \<open>devices\<close> array\<close>
  "unclosed_in_device_text = text_of_lines
     [[],
      ''devices: ({'',
      ''  name: \"Test Device\";'',
      ''  vid: 0x1234;'',
      ''  pid: 0x5678;'',
      ''  buttons: {'',
      ''    button0: {'',
      ''      cid: 0x50;'',
      ''    };'',
      ''  // Missing closing brace'',
      []]"

definition normalize_hex_test_text :: string where
  \<comment> \<open>the text of the test ''should normalize hex values''\<close>
  "normalize_hex_test_text = text_of_lines
     [[],
      ''devices: {'',
      ''  name: \"Test Device\";'',
      ''  vid: 046d;'',
      ''  pid: 0X4082;'',
      ''  '',
      ''  buttons: {'',
      ''    button0: {'',
      ''      cid: 50;'',
      ''      type: key;'',
      ''      keys: [\"KEY_A\"];'',
      ''    };'',
      ''  };'',
      ''};'',
      []]"

definition single_device_configuration :: "string \<Rightarrow> string \<Rightarrow> string \<Rightarrow> configuration_metadata \<Rightarrow> configuration" where
  \<comment> \<open>the configuration \<open>{devices: [{name, vid, pid}], metadata}\<close>\<close>
  "single_device_configuration n v p md = \<lparr>devices = [plain_device n v p], metadata = md\<rparr>"

definition valid_device_name :: "string \<Rightarrow> bool" where
  \<comment> \<open>a name that a string literal of the format can hold as it is: not empty, no double
      quote, no backslash, no line feed\<close>
  "valid_device_name n = (n \<noteq> [] \<and> CHR 0x22 \<notin> set n \<and> CHR 0x5C \<notin> set n \<and> CHR 0x0A \<notin> set n)"

definition well_formed_metadata :: "configuration_metadata \<Rightarrow> bool" where
  \<comment> \<open>the texts of the two dates are on one line each, as every \<open>toISOString()\<close> is\<close>
  "well_formed_metadata md = (CHR 0x0A \<notin> set (created md) \<and> CHR 0x0A \<notin> set (modified md))"

definition example_metadata :: configuration_metadata where
  "example_metadata =
     \<lparr>version = ''1.0.0'', created = ''2024-01-01T00:00:00.000Z'',
      modified = ''2024-01-02T00:00:00.000Z'', filename = None, originalContent = None\<rparr>"

definition regular_dpi :: "jsnum \<Rightarrow> bool" where
  \<comment> \<open>a number in [50, 25600] that is a multiple of 50\<close>
  "regular_dpi x = (case x of Num r \<Rightarrow> 50 \<le> r \<and> r \<le> 25600 \<and> r / 50 \<in> \<int> | _ \<Rightarrow> False)"

definition marked_default :: "dpi_sensor list \<Rightarrow> nat" where
  \<comment> \<open>how many sensors are marked as default\<close>
  "marked_default ss = length (filter (\<lambda>s. default s = Some True) ss)"

definition dpi_of_sensors :: "(rat \<times> bool option) list \<Rightarrow> dpi_settings" where
  \<comment> \<open>the DPI settings with the given sensors, each a dpi and an optional \<open>default\<close>\<close>
  "dpi_of_sensors xs = \<lparr>sensors = map (\<lambda>(r, b). \<lparr>dpi = Num r, default = b\<rparr>) xs\<rparr>"

definition axis_entry_text :: string where
  \<comment> \<open>a scroll wheel whose \<open>up\<close> and \<open>down\<close> have \<open>mode\<close> and \<open>axis\<close> and no \<open>type\<close>; the
      \<open>axis\<close> of \<open>down\<close> is the empty string\<close>
  "axis_entry_text = text_of_lines
     [''devices: ({'',
      ''  name: \"Test Device\";'',
      ''  hiresscroll: {'',
      ''    up: { mode: \"Axis\"; axis: \"REL_WHEEL_HI_RES\"; axis_multiplier: 1; };'',
      ''    down: { mode: \"Axis\"; axis: \"\"; };'',
      ''  };'',
      ''});'']"

definition axis_entry_device :: device where
  \<comment> \<open>the device the mapper makes of \<open>axis_entry_text\<close>\<close>
  "axis_entry_device =
     (plain_device ''Test Device'' [] [])
       \<lparr>scrollWheel := Some \<lparr>hires = None, invert = None, target = None,
          up = Some (ButtonAction ''cycleHiRes''
                 (Some (axis_parameters ''Axis'' ''REL_WHEEL_HI_RES'' (Some (Num 1))))),
          down = None, left = None, right = None\<rparr>\<rparr>"

definition scaled_axis_entry :: jsval where
  \<comment> \<open>the tree of \<open>{ mode: "Axis"; axis: "REL_WHEEL"; axis_multiplier: "1.5"; }\<close>\<close>
  "scaled_axis_entry = JObject [(''mode'', JString ''Axis''), (''axis'', JString ''REL_WHEEL''),
                                (''axis_multiplier'', JString ''1.5'')]"

definition scaled_wheel :: jsval where
  \<comment> \<open>a scroll wheel with \<open>scaled_axis_entry\<close> as \<open>up\<close> and, as \<open>down\<close>, the tree of
      \<open>{ mode: "Axis"; axis: "REL_WHEEL"; axis_multiplier: "abc"; }\<close>\<close>
  "scaled_wheel = JObject
     [(''up'', scaled_axis_entry),
      (''down'', JObject [(''mode'', JString ''Axis''), (''axis'', JString ''REL_WHEEL''),
                          (''axis_multiplier'', JString ''abc'')])]"

definition empty_axis_entry :: jsval where
  \<comment> \<open>the tree of \<open>{ mode: "Axis"; axis: ""; }\<close>\<close>
  "empty_axis_entry = JObject [(''mode'', JString ''Axis''), (''axis'', JString [])]"

definition two_equal_devices :: configuration where
  \<comment> \<open>two devices with the same vid and pid\<close>
  "two_equal_devices =
     parsed_configuration [] [plain_device ''MX Master 3S'' ''0x046d'' ''0x4082'',
                              plain_device ''Second mouse'' ''0x046d'' ''0x4082'']"

section \<open>Claims about the tokenizer and the hex normalisation\<close>

lemma tokenize_line_no_tokens:
  "\<forall>c\<in>set cs. no_token_char c \<Longrightarrow> tokenize_line lineNum column cs = []"
  by (induction cs arbitrary: column) (auto simp: no_token_char_def)

lemma set_split_lines: "l \<in> set (split_lines s) \<Longrightarrow> set l \<subseteq> set s"
proof (induction s arbitrary: l)
  case Nil
  then show ?case by simp
next
  case (Cons c s)
  show ?case
  proof (cases "c = CHR 0x0A")
    case True
    with Cons show ?thesis by auto
  next
    case False
    obtain l0 ls where sp: "split_lines s = l0 # ls" by (cases "split_lines s") (cases s, auto split: if_splits list.splits)
    with False Cons.prems have "l = c # l0 \<or> l \<in> set ls" by simp
    with Cons.IH [of l0] Cons.IH [of l] sp show ?thesis by auto
  qed
qed

lemma tokenize_no_tokens:
  assumes "\<forall>c\<in>set s. no_token_char c"
  shows "tokenize s = []"
proof -
  have "tokenize_line lineNum 0 l = []" if "l \<in> set (split_lines s)" for lineNum l
    using that assms set_split_lines [of l s] by (intro tokenize_line_no_tokens) auto
  then show ?thesis
    by (auto simp: tokenize_def in_set_enumerate_eq)
qed

text \<open>
  C9. \<open>tokenize\<close> is a total function from strings to token lists: its loops are the
  recursions \<open>read_string\<close> and \<open>tokenize_line\<close>, whose termination is proved above, and no
  branch of it raises. A character at which the scanner finds no token to start (no
  white space, no comment start, no quote, digit, letter or underscore, no \<open>= : ; , { } ( )\<close>)
  is skipped: the tokens are those of the rest of the line, read from the next column. A
  text without any quote, digit, letter, underscore, operator or delimiter has no token.
\<close>

theorem tokenizer_drops_unrecognised:
  "(unrecognised c cs \<longrightarrow>
      tokenize_line lineNum column (c # cs) = tokenize_line lineNum (Suc column) cs)
   \<and> ((\<forall>c\<in>set s. no_token_char c) \<longrightarrow> tokenize s = [])"
  using tokenize_no_tokens [of s] by (auto simp: unrecognised_def)

theorem tokenizer_drops_unrecognised_witness:
  "unrecognised (CHR ''@'') ''a;'' \<and> list_all no_token_char ''@ $ % [~] // ^''
   \<and> tokenize_line 0 0 ''@a;'' = tokenize_line 0 1 ''a;''
   \<and> tokenize ''@a;'' = [mk_token Identifier ''a'' 1 2, mk_token Delimiter '';'' 1 3]
   \<and> tokenize ''@ $ % [~] // ^'' = []"
  using tokenizer_drops_unrecognised [of "CHR ''@''" "''a;''" 0 0 "''@ $ % [~] // ^''"]
  by (simp add: unrecognised_def no_token_char_def tokenize_def is_space_def is_digit_def
      is_ident_start_def is_ident_char_def eval_nat_numeral)

subsection \<open>Hex normalisation\<close>

lemma hex_not_space: "is_hex c \<Longrightarrow> \<not> is_space c"
  by (auto simp: is_hex_def is_space_def Let_def)

lemma lower_hex_not_space: "is_lower_hex c \<Longrightarrow> \<not> is_space c"
  by (auto simp: is_lower_hex_def is_space_def Let_def)

lemma lower_hex_of_hex: "is_hex c \<Longrightarrow> is_lower_hex (toLowerChar c)"
  by (auto simp: is_hex_def is_lower_hex_def toLowerChar_def Let_def)

lemma lower_hex_fixed: "is_lower_hex c \<Longrightarrow> toLowerChar c = c"
  by (auto simp: is_lower_hex_def toLowerChar_def Let_def)

lemma lower_hex_not_x: "is_lower_hex c \<Longrightarrow> c \<noteq> CHR ''x''"
  by (auto simp: is_lower_hex_def Let_def)

lemma trim_core:
  assumes "list_all is_space ws" "list_all is_space ws'" "x \<noteq> []"
    "\<not> is_space (hd x)" "\<not> is_space (last x)"
  shows "trim (ws @ x @ ws') = x"
proof -
  from assms(1,3,4) have a: "dropWhile is_space (ws @ x @ ws') = x @ ws'"
    by (cases x) (auto simp: dropWhile_append list_all_iff)
  from assms(2,3,5) have "dropWhile is_space (rev ws' @ rev x) = rev x"
    by (cases x rule: rev_cases) (auto simp: dropWhile_append list_all_iff)
  with a show ?thesis by (simp add: trim_def)
qed

lemma hex_lower_no_0x:
  assumes "list_all is_hex ds"
  shows "\<not> startsWith (toLowerCase ds) ''0x''"
proof (cases ds)
  case Nil
  then show ?thesis by (simp add: startsWith_def toLowerCase_def)
next
  case (Cons a as)
  show ?thesis
  proof (cases as)
    case Nil
    with Cons show ?thesis by (simp add: startsWith_def toLowerCase_def)
  next
    case (Cons b bs)
    with assms \<open>ds = a # as\<close> have "is_lower_hex (toLowerChar b)"
      by (simp add: lower_hex_of_hex)
    then have "toLowerChar b \<noteq> CHR ''x''" by (rule lower_hex_not_x)
    with Cons \<open>ds = a # as\<close> show ?thesis by (simp add: startsWith_def toLowerCase_def)
  qed
qed

lemma normalizeHexValue_lower:
  assumes "ds \<noteq> []" "list_all is_lower_hex ds"
  shows "normalizeHexValue (''0x'' @ ds) = ''0x'' @ ds"
proof -
  have "\<not> is_space (last (''0x'' @ ds))"
    using assms by (simp add: list_all_iff lower_hex_not_space)
  moreover have "\<not> is_space (hd (''0x'' @ ds))" by (simp add: is_space_def)
  ultimately have "trim ([] @ (''0x'' @ ds) @ []) = ''0x'' @ ds"
    by (intro trim_core) simp_all
  moreover have "map toLowerChar ds = ds"
    using assms(2) by (induction ds) (simp_all add: lower_hex_fixed)
  ultimately show ?thesis
    by (simp add: normalizeHexValue_def toLowerCase_def startsWith_def toLowerChar_def char_of_def bit_Suc_0_iff)
qed

lemma normalizeHexValue_hex:
  assumes "list_all is_space ws" "list_all is_space ws'"
    and "p = [] \<or> p = ''0x'' \<or> p = ''0X''" and "ds \<noteq> []" "list_all is_hex ds"
  shows "normalizeHexValue (ws @ p @ ds @ ws') = ''0x'' @ toLowerCase ds"
proof -
  have l: "\<not> is_space (last (p @ ds))"
    using assms(4,5) by (simp add: list_all_iff hex_not_space)
  have h: "\<not> is_space (hd (p @ ds))"
  proof (cases "p = []")
    case True
    with assms(4,5) show ?thesis by (cases ds) (simp_all add: hex_not_space)
  next
    case False
    with assms(3) show ?thesis by (auto simp: is_space_def)
  qed
  have "trim (ws @ (p @ ds) @ ws') = p @ ds"
    using assms(1,2,4) l h by (intro trim_core) simp_all
  then have t: "trim (ws @ p @ ds @ ws') = p @ ds" by simp
  from assms(3) show ?thesis
  proof (elim disjE)
    assume "p = []"
    with t hex_lower_no_0x [OF assms(5)] show ?thesis
      by (simp add: normalizeHexValue_def)
  next
    assume "p = ''0x''"
    with t show ?thesis
      by (simp add: normalizeHexValue_def toLowerCase_def startsWith_def toLowerChar_def char_of_def bit_Suc_0_iff)
  next
    assume "p = ''0X''"
    with t show ?thesis
      by (simp add: normalizeHexValue_def toLowerCase_def startsWith_def toLowerChar_def char_of_def bit_Suc_0_iff)
  qed
qed

text \<open>
  C6. For a non-empty string of hex digits in any case, with or without a leading \<open>0x\<close> or
  \<open>0X\<close> and with white space around it that \<open>trim\<close> removes, \<open>normalizeHexValue\<close> returns
  \<open>0x\<close> and the digits in lower case; the result matches \<open>^0x[0-9a-f]+$\<close> and normalising
  it again changes nothing.
\<close>

theorem normalizeHexValue_idempotent:
  assumes "list_all is_space ws" "list_all is_space ws'"
    and "p = [] \<or> p = ''0x'' \<or> p = ''0X''" and "ds \<noteq> []" "list_all is_hex ds"
  shows "normalizeHexValue (normalizeHexValue (ws @ p @ ds @ ws')) = normalizeHexValue (ws @ p @ ds @ ws')
    \<and> lower_hex_pattern (normalizeHexValue (ws @ p @ ds @ ws'))
    \<and> normalizeHexValue (ws @ p @ ds @ ws') = ''0x'' @ toLowerCase ds"
proof -
  have n: "normalizeHexValue (ws @ p @ ds @ ws') = ''0x'' @ toLowerCase ds"
    using assms by (rule normalizeHexValue_hex)
  have low: "list_all is_lower_hex (toLowerCase ds)"
    using assms(5) by (simp add: toLowerCase_def list_all_iff lower_hex_of_hex)
  have ne: "toLowerCase ds \<noteq> []" using assms(4) by (simp add: toLowerCase_def)
  from n low ne normalizeHexValue_lower [OF ne low] show ?thesis
    by (simp add: lower_hex_pattern_def startsWith_def)
qed

theorem normalizeHexValue_idempotent_witness:
  "list_all is_space '' '' \<and> list_all is_space [CHR 0x09] \<and> ''046D'' \<noteq> [] \<and> list_all is_hex ''046D''
   \<and> normalizeHexValue '' 0X046D	'' = ''0x046d''
   \<and> normalizeHexValue (normalizeHexValue '' 0X046D	'') = normalizeHexValue '' 0X046D	''
   \<and> lower_hex_pattern (normalizeHexValue '' 0X046D	'')"
  using normalizeHexValue_idempotent [of "'' ''" "[CHR 0x09]" "''0X''" "''046D''"]
  by (auto simp: is_space_def is_hex_def toLowerCase_def toLowerChar_def char_of_def bit_Suc_0_iff)

section \<open>Claims about structural errors of the parser\<close>

text \<open>
  C1 asks that a device block without \<open>pid\<close> makes \<open>parseConfigFile\<close> raise a
  \<open>ConfigParseError\<close> whose message contains ''missing required properties''. The code has no
  such check. For the device in the array spelling it returns a configuration that keeps
  the device, with the empty string as \<open>pid\<close>; for the text of the repository's own test
  (single-object spelling) the error it raises comes from iterating over an object, and its
  message does not contain the words.
\<close>

theorem missing_pid_not_reported:
  "parse_at missing_pid_text
     = Inr (parsed_configuration missing_pid_text [plain_device ''Test Device'' ''0x1234'' []])
   \<and> parse_at missing_pid_test_text
       = Inl (ConfigParseError ''Failed to parse configuration file: devicesData is not iterable'' None None)
   \<and> \<not> js_includes ''Failed to parse configuration file: devicesData is not iterable''
         ''missing required properties''"
  by code_simp

text \<open>
  C2 asks that every \<open>devices\<close> entry of a document is accumulated, in either spelling.
  \<open>parseObject\<close> stores a repeated key over the earlier one and the mapper reads the one
  value that is left: of two entries in the array spelling only the devices of the last one
  are returned, and an entry in the single-object spelling is not iterable.
\<close>

theorem devices_last_entry_wins:
  "parse_at two_devices_text
     = Inr (parsed_configuration two_devices_text [plain_device ''G502 HERO'' ''0x046d'' ''0xc08b''])
   \<and> parse_at two_devices_test_text
       = Inl (ConfigParseError ''Failed to parse configuration file: devicesData is not iterable'' None None)"
  by code_simp

text \<open>
  C3 asks that an object without its closing brace before the end of the input raises an
  error whose message contains ''Unclosed section''. \<open>parseObject\<close> returns the object it
  has built when the tokens end: the text is parsed to a configuration, the generic tree
  holds the partial objects, and \<open>validateConfigSyntax\<close> calls the text valid. Inside the
  \<open>devices\<close> array the missing brace is reported only as the array's end being missing.
\<close>

theorem unclosed_object_accepted:
  "parse_at unclosed_text
     = Inr (parsed_configuration unclosed_text [plain_device ''Test Device'' ''0x1234'' ''0x5678''])
   \<and> parseLibconfig unclosed_text
       = Inr (JObject [(''devices'', JArray [JObject [(''name'', JString ''Test Device''),
               (''vid'', JString ''0x1234''), (''pid'', JString ''0x5678'')]]),
             (''buttons'', JObject [(''button0'', JObject [(''cid'', JString ''0x50'')])])])
   \<and> validateConfigSyntax unclosed_text ''2024-01-01T00:00:00.000Z'' ''2024-01-01T00:00:00.001Z''
       = Inr (True, [])
   \<and> parse_at unclosed_in_device_text
       = Inl (ConfigParseError ''Failed to parse configuration file: Unterminated array'' None None)
   \<and> \<not> js_includes ''Failed to parse configuration file: Unterminated array'' ''Unclosed section''"
  by code_simp

section \<open>Claim about generating and parsing again\<close>

lemma split_lines_plain: "CHR 0x0A \<notin> set x \<Longrightarrow> split_lines x = [x]"
  by (induction x) auto

lemma split_lines_append:
  "CHR 0x0A \<notin> set x \<Longrightarrow> split_lines (x @ CHR 0x0A # r) = x # split_lines r"
  by (induction x) auto

lemma split_lines_join:
  assumes "ls \<noteq> []" "\<forall>l\<in>set ls. CHR 0x0A \<notin> set l"
  shows "split_lines (join [CHR 0x0A] ls) = ls"
  using assms
proof (induction ls rule: induct_list012)
  case 1
  then show ?case by simp
next
  case (2 x)
  then show ?case by (simp add: split_lines_plain)
next
  case (3 x y ys)
  then show ?case by (simp add: split_lines_append)
qed

lemma read_string_plain:
  assumes "CHR 0x22 \<notin> set s" "CHR 0x5C \<notin> set s"
  shows "read_string (s @ CHR 0x22 # rest) acc col = (acc @ s, rest, col + length s + 1)"
  using assms by (induction s arbitrary: acc col) auto


lemmas char_class_defs = is_space_def is_digit_def is_hex_def is_decimal_char_def
  is_ident_start_def is_ident_char_def

lemma tokenize_comment_line: "tokenize_line i col (''//'' @ s) = []"
  by (simp add: char_class_defs)

lemma tokenize_for_line: "tokenize_line i 0 (''  // For the '' @ n) = []"
  by (simp add: char_class_defs)

lemma tokenize_name_line:
  assumes "CHR 0x22 \<notin> set n" "CHR 0x5C \<notin> set n"
  shows "tokenize_line i 0 (''  name: '' @ quoted n @ '';'')
    = [mk_token Identifier ''name'' (Suc i) 3, mk_token Operator '':'' (Suc i) 7,
       mk_token StringT n (Suc i) 9, mk_token Delimiter '';'' (Suc i) (length n + 11)]"
  using read_string_plain [OF assms, of "'';''" "[]" 9]
  by (simp add: char_class_defs quoted_def eval_nat_numeral)

lemma not_hex_semicolon: "\<not> is_hex (CHR '';'')"
  by (simp add: is_hex_def)

lemma tokenize_hex_line:
  assumes "list_all is_hex ds" "k = ''vid'' \<or> k = ''pid''"
  shows "tokenize_line i 0 (''  '' @ k @ '': '' @ (''0x'' @ ds) @ '';'')
    = [mk_token Identifier k (Suc i) 3, mk_token Operator '':'' (Suc i) 6,
       mk_token NumberT (''0x'' @ ds) (Suc i) 8, mk_token Delimiter '';'' (Suc i) (length ds + 10)]"
proof -
  from assms(1) have t: "takeWhile is_hex (ds @ '';'') = ds"
    by (simp add: list_all_iff not_hex_semicolon)
  from assms(1) have d: "dropWhile is_hex (ds @ '';'') = '';''"
    by (simp add: list_all_iff not_hex_semicolon)
  from assms(2) show ?thesis
    using t d by (auto simp: char_class_defs eval_nat_numeral)
qed


lemma hex_not_newline: "is_hex c \<Longrightarrow> c \<noteq> CHR 0x0A"
  by (auto simp: is_hex_def)

lemma device_id_patternD:
  assumes "DEVICE_ID_PATTERN v"
  obtains ds where "v = ''0x'' @ ds" "list_all is_hex ds" "ds \<noteq> []"
proof -
  from assms have t: "take 2 v = ''0x''" and l: "length v = 6" and h: "list_all is_hex (drop 2 v)"
    by (simp_all add: DEVICE_ID_PATTERN_def startsWith_def numeral_2_eq_2)
  from t have "v = ''0x'' @ drop 2 v"
    using append_take_drop_id [of 2 v] by simp
  moreover from l have "drop 2 v \<noteq> []" by simp
  ultimately have "v = ''0x'' @ drop 2 v" "list_all is_hex (drop 2 v)" "drop 2 v \<noteq> []"
    using h by simp_all
  then show ?thesis by (rule that)
qed

lemma generate_single_device:
  assumes "v \<noteq> []" "p \<noteq> []"
  shows "generateConfigFile (single_device_configuration n v p md)
    = join [CHR 0x0A]
        [''// Generated by logiops-gui'',
         ''// Created: '' @ created md,
         ''// Modified: '' @ modified md,
         [],
         ''devices: ('',
         ''{'',
         ''  // For the '' @ n,
         ''  name: '' @ quoted n @ '';'',
         ''  vid: '' @ v @ '';'',
         ''  pid: '' @ p @ '';'',
         ''});'']"
  using assms
  by (simp add: generateConfigFile_def single_device_configuration_def generateDeviceConfig_def
      plain_device_def)

lemma tokenize_single_device:
  assumes "CHR 0x22 \<notin> set n" "CHR 0x5C \<notin> set n" "CHR 0x0A \<notin> set n"
    and "list_all is_hex ds" "list_all is_hex es" "well_formed_metadata md"
  shows "tokenize (generateConfigFile (single_device_configuration n (''0x'' @ ds) (''0x'' @ es) md))
    = [mk_token Identifier ''devices'' 5 1, mk_token Operator '':'' 5 8, mk_token Delimiter ''('' 5 10,
       mk_token Delimiter ''{'' 6 1,
       mk_token Identifier ''name'' 8 3, mk_token Operator '':'' 8 7,
       mk_token StringT n 8 9, mk_token Delimiter '';'' 8 (length n + 11),
       mk_token Identifier ''vid'' 9 3, mk_token Operator '':'' 9 6,
       mk_token NumberT (''0x'' @ ds) 9 8, mk_token Delimiter '';'' 9 (length ds + 10),
       mk_token Identifier ''pid'' 10 3, mk_token Operator '':'' 10 6,
       mk_token NumberT (''0x'' @ es) 10 8, mk_token Delimiter '';'' 10 (length es + 10),
       mk_token Delimiter ''}'' 11 1, mk_token Delimiter '')'' 11 2, mk_token Delimiter '';'' 11 3]"
proof -
  let ?ls = "[''// Generated by logiops-gui'',
         ''// Created: '' @ created md,
         ''// Modified: '' @ modified md,
         [],
         ''devices: ('',
         ''{'',
         ''  // For the '' @ n,
         ''  name: '' @ quoted n @ '';'',
         ''  vid: '' @ (''0x'' @ ds) @ '';'',
         ''  pid: '' @ (''0x'' @ es) @ '';'',
         ''});'']"
  have nl: "\<forall>l\<in>set ?ls. CHR 0x0A \<notin> set l"
    using assms by (auto simp: well_formed_metadata_def quoted_def list_all_iff dest: hex_not_newline)
  have g: "generateConfigFile (single_device_configuration n (''0x'' @ ds) (''0x'' @ es) md)
      = join [CHR 0x0A] ?ls"
    by (rule generate_single_device) simp_all
  have s: "split_lines (join [CHR 0x0A] ?ls) = ?ls"
    using nl by (intro split_lines_join) simp_all
  have c1: "tokenize_line 0 0 ''// Generated by logiops-gui'' = []"
    and c2: "tokenize_line 1 0 (''// Created: '' @ created md) = []"
    and c3: "tokenize_line 2 0 (''// Modified: '' @ modified md) = []"
    and c4: "tokenize_line 4 0 ''devices: ('' = [mk_token Identifier ''devices'' 5 1, mk_token Operator '':'' 5 8, mk_token Delimiter ''('' 5 10]"
    and c5: "tokenize_line 5 0 ''{'' = [mk_token Delimiter ''{'' 6 1]"
    and c6: "tokenize_line 10 0 ''});'' = [mk_token Delimiter ''}'' 11 1, mk_token Delimiter '')'' 11 2, mk_token Delimiter '';'' 11 3]"
    by (simp_all add: char_class_defs eval_nat_numeral)
  show ?thesis
    unfolding g tokenize_def s
    using c1 c2 c3 c4 c5 c6 tokenize_for_line [of 6 n] tokenize_name_line [OF assms(1,2), of 7]
      tokenize_hex_line [OF assms(4), of "''vid''" 8] tokenize_hex_line [OF assms(5), of "''pid''" 9]
    by (simp add: eval_nat_numeral)
qed


lemma parse_single_device:
  assumes "CHR 0x22 \<notin> set n" "CHR 0x5C \<notin> set n" "CHR 0x0A \<notin> set n"
    and "list_all is_hex ds" "list_all is_hex es" "well_formed_metadata md"
  shows "parseLibconfig (generateConfigFile (single_device_configuration n (''0x'' @ ds) (''0x'' @ es) md))
    = Inr (JObject [(''devices'', JArray [JObject [(''name'', JString n),
             (''vid'', JString (''0x'' @ ds)), (''pid'', JString (''0x'' @ es))]])])"
  unfolding parseLibconfig_def tokenize_single_device [OF assms]
  by (simp add: mk_token_def andThen_def skip_separator_def obj_set_def startsWith_def
      eval_nat_numeral)

lemma map_single_device:
  assumes "n \<noteq> []" "list_all is_hex ds" "ds \<noteq> []" "list_all is_hex es" "es \<noteq> []"
  shows "parseDevicesFromData (JArray [JObject [(''name'', JString n),
             (''vid'', JString (''0x'' @ ds)), (''pid'', JString (''0x'' @ es))]])
    = Inr [plain_device n (''0x'' @ toLowerCase ds) (''0x'' @ toLowerCase es)]"
proof -
  have v: "normalizeHexValue (''0x'' @ ds) = ''0x'' @ toLowerCase ds"
    using normalizeHexValue_hex [of "[]" "[]" "''0x''" ds] assms by simp
  have p: "normalizeHexValue (''0x'' @ es) = ''0x'' @ toLowerCase es"
    using normalizeHexValue_hex [of "[]" "[]" "''0x''" es] assms by simp
  have "parseDeviceFromData (JObject [(''name'', JString n),
             (''vid'', JString (''0x'' @ ds)), (''pid'', JString (''0x'' @ es))])
      = Inr (Some (plain_device n (''0x'' @ toLowerCase ds) (''0x'' @ toLowerCase es)))"
    using assms(1) v p
    by (simp add: parseDeviceFromData_def js_get_def truthy_opt_def truthy_def andThen_def
        js_String_opt_def hex_member_def js_Number_opt_def parse_dpi_def parse_smartshift_def
        first_truthy_def plain_device_def)
  then show ?thesis
    by (simp add: parseDevicesFromData_def andThen_def List.map_filter_def)
qed

text \<open>
  The round trip of a device whose vid and pid carry the \<open>0x\<close> prefix. For a device name
  that is not empty and has no double quote, backslash or line feed, a vid and a pid that
  match \<open>DEVICE_ID_PATTERN\<close> (\<open>0x\<close> and four hex digits, any case) and metadata whose dates
  are on one line, parsing the text that \<open>generateConfigFile\<close> writes for the configuration
  with the single device \<open>{name, vid, pid}\<close> returns a configuration with exactly one device:
  that name and the vid and pid in lower case, which is what \<open>normalizeHexValue\<close> makes of
  them.
\<close>

theorem generate_parse_roundtrip:
  assumes "valid_device_name n" "DEVICE_ID_PATTERN v" "DEVICE_ID_PATTERN p" "well_formed_metadata md"
  shows "parseConfigFile (generateConfigFile (single_device_configuration n v p md)) fname now now'
      = Inr \<lparr>devices = [plain_device n (normalizeHexValue v) (normalizeHexValue p)],
             metadata = \<lparr>version = ''1.0.0'', created = now, modified = now', filename = fname,
               originalContent = Some (generateConfigFile (single_device_configuration n v p md))\<rparr>\<rparr>
    \<and> normalizeHexValue v = toLowerCase v \<and> normalizeHexValue p = toLowerCase p"
proof -
  from assms(2) obtain ds where v: "v = ''0x'' @ ds" and ds: "list_all is_hex ds" "ds \<noteq> []"
    by (rule device_id_patternD)
  from assms(3) obtain es where p: "p = ''0x'' @ es" and es: "list_all is_hex es" "es \<noteq> []"
    by (rule device_id_patternD)
  from assms(1) have n: "n \<noteq> []" "CHR 0x22 \<notin> set n" "CHR 0x5C \<notin> set n" "CHR 0x0A \<notin> set n"
    by (simp_all add: valid_device_name_def)
  have nv: "normalizeHexValue v = ''0x'' @ toLowerCase ds"
    using normalizeHexValue_hex [of "[]" "[]" "''0x''" ds] ds v by simp
  have np: "normalizeHexValue p = ''0x'' @ toLowerCase es"
    using normalizeHexValue_hex [of "[]" "[]" "''0x''" es] es p by simp
  have lv: "toLowerCase v = ''0x'' @ toLowerCase ds"
    using v by (simp add: toLowerCase_def toLowerChar_def)
  have lp: "toLowerCase p = ''0x'' @ toLowerCase es"
    using p by (simp add: toLowerCase_def toLowerChar_def)
  have tree: "parseLibconfig (generateConfigFile (single_device_configuration n v p md))
    = Inr (JObject [(''devices'', JArray [JObject [(''name'', JString n),
             (''vid'', JString (''0x'' @ ds)), (''pid'', JString (''0x'' @ es))]])])"
    unfolding v p using n(2-4) ds(1) es(1) assms(4) by (rule parse_single_device)
  have "parseConfigFile (generateConfigFile (single_device_configuration n v p md)) fname now now'
      = Inr \<lparr>devices = [plain_device n (''0x'' @ toLowerCase ds) (''0x'' @ toLowerCase es)],
             metadata = \<lparr>version = ''1.0.0'', created = now, modified = now', filename = fname,
               originalContent = Some (generateConfigFile (single_device_configuration n v p md))\<rparr>\<rparr>"
    unfolding parseConfigFile_def tree
    using map_single_device [OF n(1) ds es]
    by (simp add: andThen_def js_get_def truthy_def)
  with nv np lv lp show ?thesis by simp
qed

theorem generate_parse_roundtrip_witness:
  "valid_device_name ''MX Master 3S'' \<and> DEVICE_ID_PATTERN ''0x046D'' \<and> DEVICE_ID_PATTERN ''0x4082''
   \<and> well_formed_metadata example_metadata
   \<and> map_sum id devices (parse_at (generateConfigFile
        (single_device_configuration ''MX Master 3S'' ''0x046D'' ''0x4082'' example_metadata)))
      = Inr [plain_device ''MX Master 3S'' ''0x046d'' ''0x4082'']"
  using generate_parse_roundtrip [of "''MX Master 3S''" "''0x046D''" "''0x4082''" example_metadata
      None "''2024-01-01T00:00:00.000Z''" "''2024-01-01T00:00:00.001Z''"]
  by (simp add: valid_device_name_def DEVICE_ID_PATTERN_def startsWith_def is_hex_def
      well_formed_metadata_def example_metadata_def parse_at_def
      toLowerCase_def toLowerChar_def char_of_def bit_Suc_0_iff)

text \<open>
  C4 asks for the same round trip when the vid and pid are four hex digits without the \<open>0x\<close>
  prefix, giving the device with the prefix added. \<open>generateDeviceConfig\<close> writes the two
  values as they are, and \<open>tokenize\<close> takes a hex number only after \<open>0x\<close>: \<open>046d\<close> is the number
  \<open>046\<close> and the identifier \<open>d\<close>, and \<open>parseObject\<close> raises for want of an operator after \<open>d\<close>.
  The text of the repository's test ''should normalize hex values'', which expects the vid
  \<open>0x046d\<close> from \<open>vid: 046d;\<close>, raises the same error. A vid of decimal digits only is read
  as a number: \<open>0123\<close> comes back as \<open>0x123\<close>, without its leading zero.
\<close>

theorem prefixless_vid_not_parsed:
  "valid_device_name ''MX Master 3S'' \<and> list_all is_hex ''046d'' \<and> list_all is_hex ''4082''
   \<and> well_formed_metadata example_metadata
   \<and> map tvalue (tokenize ''  vid: 046d;'') = [''vid'', '':'', ''046'', ''d'', '';'']
   \<and> map ttype (tokenize ''  vid: 046d;'') = [Identifier, Operator, NumberT, Identifier, Delimiter]
   \<and> parse_at (generateConfigFile (single_device_configuration ''MX Master 3S'' ''046d'' ''4082'' example_metadata))
      = Inl (ConfigParseError ''Failed to parse configuration file: Expected : or = after d at line 9'' None None)
   \<and> parse_at normalize_hex_test_text
      = Inl (ConfigParseError ''Failed to parse configuration file: Expected : or = after d at line 4'' None None)
   \<and> list_all is_hex ''0123'' \<and> list_all is_hex ''1234''
   \<and> map_sum id devices (parse_at (generateConfigFile
        (single_device_configuration ''MX Master 3S'' ''0123'' ''1234'' example_metadata)))
      = Inr [plain_device ''MX Master 3S'' ''0x123'' ''0x1234'']"
  by code_simp

section \<open>Claims about the validators\<close>

lemma validateDPISensor_regular:
  assumes "regular_dpi (dpi s)"
  shows "validateDPISensor s p = result_of [] []"
proof (cases "dpi s")
  case (Num r)
  with assms have r: "50 \<le> r" "r \<le> 25600" "r / 50 \<in> \<int>"
    by (simp_all add: regular_dpi_def)
  from r(3) obtain k :: int where "r / 50 = of_int k" by (auto elim: Ints_cases)
  then have "of_int \<lfloor>r / 50\<rfloor> = r / 50" by simp
  with Num r(1,2) show ?thesis
    by (simp add: validateDPISensor_def num_less_def rem_is_zero_def DPI_MIN_def DPI_MAX_def)
qed (use assms in \<open>simp_all add: regular_dpi_def\<close>)

lemma regular_sensor_results:
  assumes "\<forall>s\<in>set ss. regular_dpi (dpi s)"
  shows "map (\<lambda>(index, sensor). validateDPISensor sensor (f index)) (enumerate n ss)
    = replicate (length ss) (result_of [] [])"
  using assms
proof (induction ss arbitrary: n)
  case Nil
  then show ?case by simp
next
  case (Cons s ss)
  then show ?case by (simp add: validateDPISensor_regular)
qed

lemma concat_replicate_Nil: "concat (replicate n []) = []"
  by (induction n) simp_all

text \<open>
  C7. For DPI settings with at least one sensor, all of whose sensors have a dpi in
  [50, 25600] that is a multiple of 50, \<open>validateDPISettings\<close> returns no error and no
  warning when exactly one sensor is marked as default, the one warning
  ''No default DPI sensor specified'' and no error when none is, and the one error
  ''Only one DPI sensor can be marked as default'' (and no warning) when two or more are.
\<close>

theorem validateDPISettings_default_rule:
  assumes "sensors d \<noteq> []" and "\<forall>s\<in>set (sensors d). regular_dpi (dpi s)"
  shows "validateDPISettings d basePath =
    (if marked_default (sensors d) = 1 then \<lparr>isValid = True, errors = [], warnings = []\<rparr>
     else if marked_default (sensors d) = 0 then
       \<lparr>isValid = True, errors = [],
        warnings = [\<lparr>path = basePath @ ''.sensors'', message = ''No default DPI sensor specified'',
                     severity = warning_severity, field = None\<rparr>]\<rparr>
     else
       \<lparr>isValid = False,
        errors = [\<lparr>path = basePath @ ''.sensors'',
                   message = ''Only one DPI sensor can be marked as default'',
                   severity = error_severity, field = None\<rparr>],
        warnings = []\<rparr>)"
proof -
  let ?rs = "map (\<lambda>(index, sensor).
                validateDPISensor sensor (basePath @ ''.sensors['' @ show_nat index @ '']''))
              (enumerate 0 (sensors d))"
  have rs: "?rs = replicate (length (sensors d)) (result_of [] [])"
    using assms(2) by (rule regular_sensor_results)
  have e: "concat (map errors ?rs) = []" and w: "concat (map warnings ?rs) = []"
    unfolding rs by (simp_all add: result_of_def concat_replicate_Nil)
  define n where "n = marked_default (sensors d)"
  have n: "defaultCount (sensors d) = n"
    by (simp add: n_def defaultCount_def marked_default_def)
  from assms(1) have "validateDPISettings d basePath =
      result_of
        (concat (map errors ?rs)
         @ (if n > 1 then
              [error_at (basePath @ ''.sensors'') ''Only one DPI sensor can be marked as default'' None]
            else []))
        (concat (map warnings ?rs)
         @ (if n = 0 then [warning_at (basePath @ ''.sensors'') ''No default DPI sensor specified'' None]
            else []))"
    unfolding validateDPISettings_def Let_def n by simp
  then have "validateDPISettings d basePath =
      result_of
        (if n > 1 then
           [error_at (basePath @ ''.sensors'') ''Only one DPI sensor can be marked as default'' None]
         else [])
        (if n = 0 then [warning_at (basePath @ ''.sensors'') ''No default DPI sensor specified'' None]
         else [])"
    unfolding e w by simp
  moreover consider "n = 0" | "n = 1" | "n > 1" by linarith
  ultimately show ?thesis
    unfolding n_def [symmetric]
    by cases (simp_all add: result_of_def error_at_def warning_at_def)
qed

theorem validateDPISettings_default_rule_witness:
  "sensors (dpi_of_sensors [(1000, Some True), (1600, None)]) \<noteq> []
   \<and> regular_dpi (Num 1000) \<and> regular_dpi (Num 1600) \<and> regular_dpi (Num 50)
   \<and> validateDPISettings (dpi_of_sensors [(1000, Some True), (1600, None)]) ''device.dpi''
       = \<lparr>isValid = True, errors = [], warnings = []\<rparr>
   \<and> validateDPISettings (dpi_of_sensors [(1000, None), (1600, Some False)]) ''device.dpi''
       = \<lparr>isValid = True, errors = [],
          warnings = [\<lparr>path = ''device.dpi.sensors'', message = ''No default DPI sensor specified'',
                       severity = warning_severity, field = None\<rparr>]\<rparr>
   \<and> validateDPISettings (dpi_of_sensors [(1000, Some True), (1600, Some True), (50, Some True)]) ''device.dpi''
       = \<lparr>isValid = False,
          errors = [\<lparr>path = ''device.dpi.sensors'',
                     message = ''Only one DPI sensor can be marked as default'',
                     severity = error_severity, field = None\<rparr>],
          warnings = []\<rparr>"
  using validateDPISettings_default_rule [of "dpi_of_sensors [(1000, Some True), (1600, None)]" "''device.dpi''"]
    validateDPISettings_default_rule [of "dpi_of_sensors [(1000, None), (1600, Some False)]" "''device.dpi''"]
    validateDPISettings_default_rule [of "dpi_of_sensors [(1000, Some True), (1600, Some True), (50, Some True)]" "''device.dpi''"]
  by (simp add: dpi_of_sensors_def regular_dpi_def marked_default_def)

lemma js_includes_prefix: "js_includes (p @ s) p"
proof (cases "p @ s")
  case Nil
  then show ?thesis by simp
next
  case (Cons a l)
  have "startsWith (p @ s) p" by (simp add: startsWith_def)
  with Cons show ?thesis by simp
qed

lemma indexOf_bounds:
  assumes "k < length xs" "xs ! k = x"
  shows "0 \<le> indexOf xs x \<and> indexOf xs x \<le> int k"
  using assms
proof (induction xs arbitrary: k)
  case Nil
  then show ?case by simp
next
  case (Cons y ys)
  show ?case
  proof (cases "y = x")
    case True
    then show ?thesis by simp
  next
    case False
    with Cons.prems obtain k' where k: "k = Suc k'" by (cases k) auto
    with Cons.prems have "k' < length ys" "ys ! k' = x" by simp_all
    from Cons.IH [OF this] False k show ?thesis by (simp add: Let_def)
  qed
qed

lemma duplicates_nonempty:
  assumes "i < j" "j < length ids" "ids ! i = ids ! j"
  shows "duplicates ids \<noteq> []"
proof -
  from assms have "i < length ids" by simp
  from indexOf_bounds [OF this assms(3)] assms(1) have "indexOf ids (ids ! j) \<noteq> int j" by simp
  moreover from assms(2) have "(j, ids ! j) \<in> set (enumerate 0 ids)"
    by (simp add: in_set_enumerate_eq)
  ultimately have "(j, ids ! j) \<in> set (filter (\<lambda>(index, id). indexOf ids id \<noteq> int index) (enumerate 0 ids))"
    by simp
  then show ?thesis
    unfolding duplicates_def by (metis empty_iff list.set(1) map_is_Nil_conv)
qed

text \<open>
  C8. For a configuration in which two devices, at different positions of the device list,
  have the same vid and the same pid, \<open>validateConfiguration\<close> returns \<open>isValid: false\<close> and
  an error whose message contains ''Duplicate devices''.
\<close>

theorem validateConfiguration_duplicates:
  assumes "i < j" "j < length (devices config)"
    and "vid (devices config ! i) = vid (devices config ! j)"
    and "pid (devices config ! i) = pid (devices config ! j)"
  shows "isValid (validateConfiguration config) = False
    \<and> (\<exists>e\<in>set (errors (validateConfiguration config)).
          severity e = error_severity \<and> js_includes (message e) ''Duplicate devices'')"
proof -
  let ?ids = "deviceIds (devices config)"
  from assms have "?ids ! i = ?ids ! j" by (simp add: deviceIds_def)
  with assms(1,2) have d: "duplicates ?ids \<noteq> []"
    by (intro duplicates_nonempty [of i j]) (simp_all add: deviceIds_def)
  from assms(2) have ne: "devices config \<noteq> []" by auto
  let ?e = "error_at ''devices'' (''Duplicate devices found: '' @ join '', '' (duplicates ?ids)) None"
  from d ne have "?e \<in> set (errors (validateConfiguration config))"
    by (simp add: validateConfiguration_def Let_def result_of_def)
  moreover have "js_includes (message ?e) ''Duplicate devices''"
    using js_includes_prefix [of "''Duplicate devices''" "'' found: '' @ join '', '' (duplicates ?ids)"]
    by (simp add: error_at_def)
  moreover have "severity ?e = error_severity" by (simp add: error_at_def)
  moreover from d ne have "isValid (validateConfiguration config) = False"
    by (simp add: validateConfiguration_def Let_def result_of_def)
  ultimately show ?thesis by blast
qed

theorem validateConfiguration_duplicates_witness:
  "(0::nat) < 1 \<and> 1 < length (devices two_equal_devices)
   \<and> vid (devices two_equal_devices ! 0) = vid (devices two_equal_devices ! 1)
   \<and> pid (devices two_equal_devices ! 0) = pid (devices two_equal_devices ! 1)
   \<and> isValid (validateConfiguration two_equal_devices) = False
   \<and> errors (validateConfiguration two_equal_devices)
       = [\<lparr>path = ''devices'', message = ''Duplicate devices found: 0x046d:0x4082'',
           severity = error_severity, field = None\<rparr>]
   \<and> js_includes ''Duplicate devices found: 0x046d:0x4082'' ''Duplicate devices''"
proof -
  have e: "errors (validateConfiguration two_equal_devices)
       = [\<lparr>path = ''devices'', message = ''Duplicate devices found: 0x046d:0x4082'',
           severity = error_severity, field = None\<rparr>]"
    by code_simp
  have i: "js_includes ''Duplicate devices found: 0x046d:0x4082'' ''Duplicate devices''"
    by code_simp
  have h: "(0::nat) < 1 \<and> 1 < length (devices two_equal_devices)
   \<and> vid (devices two_equal_devices ! 0) = vid (devices two_equal_devices ! 1)
   \<and> pid (devices two_equal_devices ! 0) = pid (devices two_equal_devices ! 1)"
    by (simp add: two_equal_devices_def parsed_configuration_def plain_device_def)
  with validateConfiguration_duplicates [of 0 1 two_equal_devices]
  have "isValid (validateConfiguration two_equal_devices) = False" by simp
  with e i h show ?thesis by simp
qed

lemma isValid_result_of: "isValid (result_of es ws) = (errors (result_of es ws) = [])"
  by (simp add: result_of_def)

text \<open>
  C10. Each of the eight exported validators returns a result whose \<open>isValid\<close> is true exactly
  when its list of errors is empty; the warnings have no part in it.
\<close>

theorem validators_isValid_iff_no_errors:
  "isValid (validateConfiguration config) = (errors (validateConfiguration config) = [])
   \<and> isValid (validateDevice dev p1) = (errors (validateDevice dev p1) = [])
   \<and> isValid (validateDPISettings d p2) = (errors (validateDPISettings d p2) = [])
   \<and> isValid (validateDPISensor sensor p3) = (errors (validateDPISensor sensor p3) = [])
   \<and> isValid (validateButtonMapping button p4) = (errors (validateButtonMapping button p4) = [])
   \<and> isValid (validateButtonAction act p5) = (errors (validateButtonAction act p5) = [])
   \<and> isValid (validateGestureMapping gesture p6) = (errors (validateGestureMapping gesture p6) = [])
   \<and> isValid (validateScrollWheelSettings sw p7) = (errors (validateScrollWheelSettings sw p7) = [])"
  by (simp add: validateConfiguration_def validateDevice_def validateDPISettings_def
      validateDPISensor_def validateButtonMapping_def validateButtonAction_def
      validateGestureMapping_def validateScrollWheelSettings_def Let_def isValid_result_of)

theorem validators_isValid_iff_no_errors_witness:
  "isValid (validateConfiguration (parsed_configuration [] [])) = True
   \<and> errors (validateConfiguration (parsed_configuration [] [])) = []
   \<and> warnings (validateConfiguration (parsed_configuration [] []))
       = [\<lparr>path = ''devices'', message = ''No devices configured'',
           severity = warning_severity, field = None\<rparr>]"
  using validators_isValid_iff_no_errors [of "parsed_configuration [] []"]
  by (simp add: validateConfiguration_def parsed_configuration_def result_of_def warning_at_def)

section \<open>Claim about the scroll-wheel entries without a type\<close>

text \<open>
  The conversions \<open>String\<close> and \<open>Number\<close> throw for one kind of value only: an object, or an
  array holding an object, with a member named \<open>toString\<close>. \<open>Number\<close> of a string, a number or
  a boolean always is a number.
\<close>

lemma mapE_throws:
  assumes "\<And>x e. x \<in> set xs \<Longrightarrow> f x = Inl e \<Longrightarrow> P e" and "mapE f xs = Inl e"
  shows "P e"
  using assms
  by (induction xs) (auto simp: andThen_def split: sum.splits)

lemma js_String_throws:
  "js_String v = Inl e \<Longrightarrow> e = TypeError ''Cannot convert object to primitive value''"
proof (induction v arbitrary: e rule: js_String.induct)
  case (5 xs)
  then show ?case
    by (auto simp: andThen_def split: sum.splits elim!: mapE_throws [rotated])
qed (auto split: if_splits)

lemma js_Number_throws:
  "js_Number v = Inl e \<Longrightarrow> e = TypeError ''Cannot convert object to primitive value''"
  by (cases v) (auto simp: js_Number_def andThen_def simp del: js_String.simps
      split: sum.splits dest: js_String_throws)

lemma js_Number_primitive:
  "js_Number (JString s) = Inr (strToNumber s)"
  "js_Number (JNumber n) = Inr n"
  "js_Number (JBoolean b) = Inr (Num (if b then 1 else 0))"
  by (simp_all add: js_Number_def)

lemma read_axis_truthy:
  assumes "js_get e ''mode'' = Some m" "js_get e ''axis'' = Some a" "truthy m" "truthy a"
    and "js_String m = Inr mode" "js_String a = Inr axis"
    and "js_Number_opt (js_get e ''axis_multiplier'') = Inr k"
  shows "read_axis e = Inr (Some (axis_parameters mode axis k))"
  using assms by (simp add: read_axis_def andThen_def)

lemma truthy_object: "js_get e k = Some v \<Longrightarrow> truthy e"
  by (cases e) (simp_all add: js_get_def truthy_def)

lemma parseScrollWheelFromData_stores:
  assumes "parseScrollWheelFromData data = Inr sw"
  shows "scroll_direction (js_get data ''up'') = Inr (up sw)
    \<and> scroll_direction (js_get data ''down'') = Inr (down sw)
    \<and> scroll_direction (js_get data ''left'') = Inr (left sw)
    \<and> scroll_direction (js_get data ''right'') = Inr (right sw)"
  using assms
  by (auto simp: parseScrollWheelFromData_def andThen_def split: sum.splits)

text \<open>
  C5, as amended. For a scroll-wheel directional entry whose \<open>mode\<close> and \<open>axis\<close> members are
  truthy and whose \<open>type\<close> member is absent or falsy, and whose \<open>mode\<close>, \<open>axis\<close> and
  \<open>axis_multiplier\<close> convert by \<open>String\<close> and \<open>Number\<close> without a throw, the loop body of
  \<open>parseScrollWheelFromData\<close> yields the action of type \<open>cycleHiRes\<close> with the parameters
  \<open>mode = String(mode)\<close>, \<open>axis = String(axis)\<close> and, when the member is present,
  \<open>axis_multiplier = Number(axis_multiplier)\<close>, whatever number that is; and whenever
  \<open>parseScrollWheelFromData\<close> returns settings for data holding the entry as \<open>up\<close>, \<open>down\<close>,
  \<open>left\<close> or \<open>right\<close>, that action is what the settings store for the direction.
\<close>

theorem axis_entry_synthesized:
  assumes "js_get e ''mode'' = Some m" "js_get e ''axis'' = Some a" "truthy m" "truthy a"
    and "\<not> truthy_opt (js_get e ''type'')"
    and "js_String m = Inr mode" "js_String a = Inr axis"
    and "js_Number_opt (js_get e ''axis_multiplier'') = Inr k"
  shows "scroll_direction (Some e)
      = Inr (Some (ButtonAction ''cycleHiRes'' (Some (axis_parameters mode axis k))))
    \<and> (\<forall>data sw. parseScrollWheelFromData data = Inr sw \<longrightarrow>
          (js_get data ''up'' = Some e \<longrightarrow>
             up sw = Some (ButtonAction ''cycleHiRes'' (Some (axis_parameters mode axis k))))
        \<and> (js_get data ''down'' = Some e \<longrightarrow>
             down sw = Some (ButtonAction ''cycleHiRes'' (Some (axis_parameters mode axis k))))
        \<and> (js_get data ''left'' = Some e \<longrightarrow>
             left sw = Some (ButtonAction ''cycleHiRes'' (Some (axis_parameters mode axis k))))
        \<and> (js_get data ''right'' = Some e \<longrightarrow>
             right sw = Some (ButtonAction ''cycleHiRes'' (Some (axis_parameters mode axis k)))))"
proof -
  have t: "truthy e" using assms(1) by (rule truthy_object)
  have r: "read_axis e = Inr (Some (axis_parameters mode axis k))"
    using assms(1-4,6-8) by (rule read_axis_truthy)
  have s: "scroll_direction (Some e)
      = Inr (Some (ButtonAction ''cycleHiRes'' (Some (axis_parameters mode axis k))))"
    using t r assms(1-5) by (simp add: scroll_direction_def truthy_opt_def andThen_def)
  show ?thesis
  proof (intro conjI allI impI)
    show "scroll_direction (Some e)
      = Inr (Some (ButtonAction ''cycleHiRes'' (Some (axis_parameters mode axis k))))"
      by (rule s)
  next
    fix data sw
    assume "parseScrollWheelFromData data = Inr sw" "js_get data ''up'' = Some e"
    with parseScrollWheelFromData_stores [of data sw] s
    show "up sw = Some (ButtonAction ''cycleHiRes'' (Some (axis_parameters mode axis k)))" by simp
  next
    fix data sw
    assume "parseScrollWheelFromData data = Inr sw" "js_get data ''down'' = Some e"
    with parseScrollWheelFromData_stores [of data sw] s
    show "down sw = Some (ButtonAction ''cycleHiRes'' (Some (axis_parameters mode axis k)))" by simp
  next
    fix data sw
    assume "parseScrollWheelFromData data = Inr sw" "js_get data ''left'' = Some e"
    with parseScrollWheelFromData_stores [of data sw] s
    show "left sw = Some (ButtonAction ''cycleHiRes'' (Some (axis_parameters mode axis k)))" by simp
  next
    fix data sw
    assume "parseScrollWheelFromData data = Inr sw" "js_get data ''right'' = Some e"
    with parseScrollWheelFromData_stores [of data sw] s
    show "right sw = Some (ButtonAction ''cycleHiRes'' (Some (axis_parameters mode axis k)))" by simp
  qed
qed

theorem axis_entry_synthesized_witness:
  "js_get scaled_axis_entry ''mode'' = Some (JString ''Axis'')
   \<and> js_get scaled_axis_entry ''axis'' = Some (JString ''REL_WHEEL'')
   \<and> truthy (JString ''Axis'') \<and> truthy (JString ''REL_WHEEL'')
   \<and> \<not> truthy_opt (js_get scaled_axis_entry ''type'')
   \<and> js_String (JString ''Axis'') = Inr ''Axis'' \<and> js_String (JString ''REL_WHEEL'') = Inr ''REL_WHEEL''
   \<and> js_Number_opt (js_get scaled_axis_entry ''axis_multiplier'') = Inr (Some (Num (3 / 2)))
   \<and> scroll_direction (Some scaled_axis_entry)
       = Inr (Some (ButtonAction ''cycleHiRes''
           (Some (axis_parameters ''Axis'' ''REL_WHEEL'' (Some (Num (3 / 2)))))))
   \<and> js_get scaled_wheel ''up'' = Some scaled_axis_entry
   \<and> parseScrollWheelFromData scaled_wheel
       = Inr \<lparr>hires = None, invert = None, target = None,
              up = Some (ButtonAction ''cycleHiRes''
                     (Some (axis_parameters ''Axis'' ''REL_WHEEL'' (Some (Num (3 / 2)))))),
              down = Some (ButtonAction ''cycleHiRes''
                     (Some (axis_parameters ''Axis'' ''REL_WHEEL'' (Some NaN)))),
              left = None, right = None\<rparr>"
proof -
  have h: "js_get scaled_axis_entry ''mode'' = Some (JString ''Axis'')"
    "js_get scaled_axis_entry ''axis'' = Some (JString ''REL_WHEEL'')"
    "truthy (JString ''Axis'')" "truthy (JString ''REL_WHEEL'')"
    "\<not> truthy_opt (js_get scaled_axis_entry ''type'')"
    "js_String (JString ''Axis'') = Inr ''Axis''" "js_String (JString ''REL_WHEEL'') = Inr ''REL_WHEEL''"
    by (simp_all add: scaled_axis_entry_def js_get_def truthy_def truthy_opt_def)
  have k: "js_Number_opt (js_get scaled_axis_entry ''axis_multiplier'') = Inr (Some (Num (3 / 2)))"
    by code_simp
  have u: "js_get scaled_wheel ''up'' = Some scaled_axis_entry"
    by (simp add: scaled_wheel_def js_get_def)
  have w: "parseScrollWheelFromData scaled_wheel
       = Inr \<lparr>hires = None, invert = None, target = None,
              up = Some (ButtonAction ''cycleHiRes''
                     (Some (axis_parameters ''Axis'' ''REL_WHEEL'' (Some (Num (3 / 2)))))),
              down = Some (ButtonAction ''cycleHiRes''
                     (Some (axis_parameters ''Axis'' ''REL_WHEEL'' (Some NaN)))),
              left = None, right = None\<rparr>"
    by code_simp
  from axis_entry_synthesized [OF h k]
  have "scroll_direction (Some scaled_axis_entry)
       = Inr (Some (ButtonAction ''cycleHiRes''
           (Some (axis_parameters ''Axis'' ''REL_WHEEL'' (Some (Num (3 / 2)))))))"
    by simp
  with h k u w show ?thesis by simp
qed

text \<open>
  C5 as stated speaks of every entry that has the members \<open>mode\<close> and \<open>axis\<close> and no
  \<open>type\<close>. The test of the code is for truthy members: an entry whose \<open>axis\<close> is the empty
  string fails it, goes to \<open>parseActionFromData\<close>, which returns \<open>null\<close> for want of a \<open>type\<close>,
  and nothing is stored for the direction.
\<close>

theorem empty_axis_entry_dropped_counterexample:
  "js_get empty_axis_entry ''mode'' = Some (JString ''Axis'')
   \<and> js_get empty_axis_entry ''axis'' = Some (JString [])
   \<and> js_get empty_axis_entry ''type'' = None
   \<and> scroll_direction (Some empty_axis_entry) = Inr None
   \<and> parse_at axis_entry_text = Inr (parsed_configuration axis_entry_text [axis_entry_device])"
  by code_simp

end
